theory Spec2Isabelle
  imports Complex_Main "HOL-Library.Sublist"
begin

section \<open>csv2ofx.main: the command line driver of the conversion\<close>

text \<open>
  The theory embeds \<^verbatim>\<open>src/csv2ofx/main.py\<close>: the option table of the argument parser and
  the function \<^verbatim>\<open>run\<close>. Everything \<^verbatim>\<open>run\<close> calls but does not define (the date parser,
  the CSV reader, the writer, the file system, the clock, the classes \<^verbatim>\<open>OFX\<close> and \<^verbatim>\<open>QIF\<close>,
  \<^verbatim>\<open>utils.gen_data\<close>) is a field of an environment record, so every statement holds for
  any behaviour of those collaborators.
\<close>

subsection \<open>Python values\<close>

text \<open>
  Dynamically typed values that travel through the keyword dictionaries: the entries of a
  mapping and the CSV-shape hints. \<open>PInf\<close> is \<^verbatim>\<open>math.inf\<close>, \<open>PCallable\<close> an opaque function
  of a row, identified by a name.
\<close>

datatype pyval =
    PNone
  | PBool bool
  | PInt int
  | PInf
  | PStr string
  | PCallable string

text \<open>
  Exceptions, each with the text \<^verbatim>\<open>str(err)\<close> gives. \<open>OtherException\<close> is any other
  subclass of \<^verbatim>\<open>Exception\<close>; \<open>BaseExc\<close> is a \<^verbatim>\<open>BaseException\<close> that is not an
  \<^verbatim>\<open>Exception\<close> (\<^verbatim>\<open>KeyboardInterrupt\<close>, \<^verbatim>\<open>SystemExit\<close>), which \<^verbatim>\<open>except Exception\<close> does
  not catch.
\<close>

text \<open>
  Modelled from the spec: the declaration of \<^verbatim>\<open>BalanceError\<close> (imported from the package's
  \<^verbatim>\<open>__init__\<close>, which is not among the sources) and the error kind UnsupportedAccountType.
  Following the spec, \<open>BalanceError\<close> is a kind of its own (no subclass of \<^verbatim>\<open>KeyError\<close>,
  \<^verbatim>\<open>TypeError\<close> or \<^verbatim>\<open>ValueError\<close>) and carries the expected and the computed balance next to its
  text; UnsupportedAccountType is an ordinary \<^verbatim>\<open>Exception\<close> carrying the rejected value.
\<close>

datatype exn =
    KeyError string
  | TypeError string
  | ValueError string
  | BalanceError string rat rat
  | AttributeError string
  | FileNotFoundError string
  | UnboundLocalError string
  | UnsupportedAccountType string
  | OtherException string
  | BaseExc string

fun is_Exception :: "exn \<Rightarrow> bool" where
  "is_Exception (BaseExc _) = False"
| "is_Exception _ = True"

text \<open>Truthiness of an optional string option value: \<^verbatim>\<open>None\<close> and \<^verbatim>\<open>""\<close> are falsy.\<close>

fun truthy :: "string option \<Rightarrow> bool" where
  "truthy None = False"
| "truthy (Some s) = (s \<noteq> [])"

text \<open>\<^verbatim>\<open>dict.get(key, default)\<close>: the stored value when the key is present, else the default.\<close>

definition dict_get :: "('k \<rightharpoonup> 'v) \<Rightarrow> 'k \<Rightarrow> 'v \<Rightarrow> 'v" where
  "dict_get d k dflt = (case d k of Some v \<Rightarrow> v | None \<Rightarrow> dflt)"

type_synonym mapping_spec = "string \<rightharpoonup> pyval"

subsection \<open>The parsed options\<close>

text \<open>
  The namespace \<^verbatim>\<open>parser.parse_args\<close> returns, one field per \<^verbatim>\<open>add_argument\<close> (lines 76-223).
  \<open>end_opt\<close> is the attribute \<^verbatim>\<open>end\<close> and \<open>mapping_name\<close> the attribute \<^verbatim>\<open>mapping\<close>. An option
  of \<^verbatim>\<open>type=float\<close> is a rational here; \<open>custom\<close> is the \<^verbatim>\<open>mapping\<close> attribute of the module
  loaded from the file of \<^verbatim>\<open>--custom\<close>.
\<close>

record args =
  source :: "string option"
  dest :: "string option"
  account_type :: "string option"
  institution :: "string option"
  end_opt :: "string option"
  ending_balance :: "rat option"
  language :: string
  start :: "string option"
  dayfirst :: bool
  mapping_name :: string
  custom :: "mapping_spec option"
  collapse :: "string option"
  chunksize :: int
  first_row :: int
  last_row :: pyval
  first_col :: int
  list_mappings :: bool
  version :: bool
  qif :: bool
  strict :: bool
  overwrite :: bool
  server_date :: "string option"
  encoding :: string
  debug :: bool
  verbose :: bool

definition TYPES :: "string list" where
  "TYPES = [''CHECKING'', ''SAVINGS'', ''MONEYMRKT'', ''CREDITLINE'', ''Bank'', ''Cash'']"

text \<open>
  The namespace of a command line without any option. \<open>now_str\<close> is \<^verbatim>\<open>str(dt.now())\<close>, taken
  when the module is loaded: the default of \<^verbatim>\<open>--end\<close> (lines 94-100).
\<close>

definition parser_defaults :: "string \<Rightarrow> args" where
  "parser_defaults now_str =
     \<lparr> source = None, dest = None, account_type = None, institution = None,
       end_opt = Some now_str, ending_balance = None, language = ''ENG'', start = None,
       dayfirst = False, mapping_name = ''default'', custom = None, collapse = None,
       chunksize = 2 ^ 14, first_row = 0, last_row = PInf, first_col = 0,
       list_mappings = False, version = False, qif = False, strict = False,
       overwrite = False, server_date = None, encoding = ''utf-8'', debug = False,
       verbose = False \<rparr>"

text \<open>What \<^verbatim>\<open>choices=TYPES\<close> of \<^verbatim>\<open>--account\<close> lets through (lines 80-87).\<close>

definition account_choice_ok :: "args \<Rightarrow> bool" where
  "account_choice_ok a =
     (case account_type a of None \<Rightarrow> True | Some t \<Rightarrow> t \<in> set TYPES)"

subsection \<open>The keyword dictionaries built by run\<close>

text \<open>
  The dictionaries \<^verbatim>\<open>okwargs\<close>, \<^verbatim>\<open>ckwargs\<close> and \<^verbatim>\<open>kwargs\<close>; a field \<open>ok_k\<close>, \<open>ck_k\<close>, \<open>kw_k\<close> is
  the entry under the key \<^verbatim>\<open>k\<close>.
\<close>

record 'dt okwargs =
  ok_def_type :: string
  ok_start :: "'dt option"
  ok_end :: "'dt option"
  ok_strict :: bool
  ok_institution :: "string option"

record ckwargs =
  ck_has_header :: pyval
  ck_custom_header :: pyval
  ck_delimiter :: pyval
  ck_first_row :: pyval
  ck_last_row :: pyval
  ck_first_col :: pyval

record wkwargs =
  kw_overwrite :: bool
  kw_chunksize :: int
  kw_encoding :: string

text \<open>
  Line 250: \<^verbatim>\<open>args.account_type or ("Bank" if args.qif else "CHECKING")\<close>.
\<close>

definition def_type_of :: "args \<Rightarrow> string" where
  "def_type_of a =
     (case account_type a of
        Some t \<Rightarrow> if t \<noteq> [] then t else if qif a then ''Bank'' else ''CHECKING''
      | None \<Rightarrow> if qif a then ''Bank'' else ''CHECKING'')"

text \<open>
  Lines 251-252: a bound is parsed when its option is truthy and is \<^verbatim>\<open>None\<close> otherwise;
  \<open>prs\<close> is \<^verbatim>\<open>dateutil.parser.parse\<close>, which raises on text that is no date.
\<close>

definition parse_bound ::
  "(string \<Rightarrow> bool \<Rightarrow> exn + 'dt) \<Rightarrow> args \<Rightarrow> string option \<Rightarrow> exn + 'dt option" where
  "parse_bound prs a opt =
     (case opt of
        None \<Rightarrow> Inr None
      | Some s \<Rightarrow>
          if s \<noteq> [] then
            (case prs s (dayfirst a) of Inl e \<Rightarrow> Inl e | Inr d \<Rightarrow> Inr (Some d))
          else Inr None)"

text \<open>Lines 249-255. The entries are evaluated in the order they are written.\<close>

definition build_okwargs ::
  "(string \<Rightarrow> bool \<Rightarrow> exn + 'dt) \<Rightarrow> args \<Rightarrow> exn + 'dt okwargs" where
  "build_okwargs prs a =
     (case parse_bound prs a (start a) of
        Inl e \<Rightarrow> Inl e
      | Inr s \<Rightarrow>
         (case parse_bound prs a (end_opt a) of
            Inl e \<Rightarrow> Inl e
          | Inr e \<Rightarrow>
             Inr \<lparr> ok_def_type = def_type_of a, ok_start = s, ok_end = e,
                   ok_strict = strict a, ok_institution = institution a \<rparr>))"

text \<open>
  Lines 262-269. \<open>hh\<close> is \<^verbatim>\<open>cont.has_header\<close> and \<open>ch\<close> is
  \<^verbatim>\<open>getattr(cont, "custom_header", None)\<close>.
\<close>

definition build_ckwargs :: "mapping_spec \<Rightarrow> args \<Rightarrow> pyval \<Rightarrow> pyval \<Rightarrow> ckwargs" where
  "build_ckwargs m a hh ch =
     \<lparr> ck_has_header = hh, ck_custom_header = ch,
       ck_delimiter = dict_get m ''delimiter'' (PStr '',''),
       ck_first_row = dict_get m ''first_row'' (PInt (first_row a)),
       ck_last_row = dict_get m ''last_row'' (last_row a),
       ck_first_col = dict_get m ''first_col'' (PInt (first_col a)) \<rparr>"

subsection \<open>Rendered sections and the output stream\<close>

text \<open>
  What \<^verbatim>\<open>cont.header\<close>, \<^verbatim>\<open>cont.gen_body\<close> and \<^verbatim>\<open>cont.footer\<close> may return: \<^verbatim>\<open>None\<close>, a string, a
  list of fragments, or a generator. A generator is lazy: \<open>SGen fs e\<close> yields the fragments
  \<open>fs\<close> when it is consumed and then, when \<open>e\<close> is \<open>Some x\<close>, raises \<open>x\<close>.
\<close>

datatype rendered =
    SNone
  | SText string
  | SList "string list"
  | SGen "string list" "exn option"

text \<open>
  Truthiness, as \<^verbatim>\<open>filter(None, ...)\<close> tests it: \<^verbatim>\<open>None\<close>, the empty string and the empty
  list are falsy, a generator object is always truthy.
\<close>

fun truthy_section :: "rendered \<Rightarrow> bool" where
  "truthy_section SNone = False"
| "truthy_section (SText s) = (s \<noteq> [])"
| "truthy_section (SList fs) = (fs \<noteq> [])"
| "truthy_section (SGen fs e) = True"

text \<open>
  Iterating a section: a string yields its characters, a list or generator its fragments;
  \<^verbatim>\<open>None\<close> is not iterable.
\<close>

fun section_items :: "rendered \<Rightarrow> string list" where
  "section_items SNone = []"
| "section_items (SText s) = map (\<lambda>c. [c]) s"
| "section_items (SList fs) = fs"
| "section_items (SGen fs e) = fs"

fun section_failure :: "rendered \<Rightarrow> exn option" where
  "section_failure SNone = Some (TypeError ''NoneType object is not iterable'')"
| "section_failure (SText s) = None"
| "section_failure (SList fs) = None"
| "section_failure (SGen fs e) = e"

text \<open>
  A lazy stream of fragments: the fragments it yields and the exception that ends it, if any.
\<close>

type_synonym content = "string list \<times> exn option"

text \<open>\<^verbatim>\<open>itertools.chain.from_iterable\<close>: the sections one after the other, up to the first failure.\<close>

fun chain_from_iterable :: "rendered list \<Rightarrow> content" where
  "chain_from_iterable [] = ([], None)"
| "chain_from_iterable (s # ss) =
     (case section_failure s of
        Some e \<Rightarrow> (section_items s, Some e)
      | None \<Rightarrow> (section_items s @ fst (chain_from_iterable ss), snd (chain_from_iterable ss)))"

text \<open>The text a section stands for: what its fragments give when joined.\<close>

definition section_text :: "rendered \<Rightarrow> string" where
  "section_text s = concat (section_items s)"

subsection \<open>Collaborators\<close>

text \<open>
  A file object: standard input, standard output, or a file opened by \<^verbatim>\<open>builtins.open\<close> for
  the source or the destination path.
\<close>

datatype handle = Stdin | Stdout | SrcFile string | DstFile string

text \<open>
  The object \<^verbatim>\<open>cont\<close> (an \<^verbatim>\<open>OFX\<close> or a \<^verbatim>\<open>QIF\<close>; neither class is among the sources): the two
  attributes and the six methods \<^verbatim>\<open>run\<close> uses. \<open>'v\<close> is the type of the values handed from
  stage to stage. A method may raise when it is called (\<open>Inl\<close>); what a generator it
  returns raises later, while the writer consumes it, is part of the rendered section
  (\<open>SGen\<close>).
\<close>

record ('v, 'dt) container =
  has_header :: pyval
  custom_header :: pyval
  gen_groups :: "'v \<Rightarrow> int \<Rightarrow> exn + 'v"
  gen_trxns :: "'v \<Rightarrow> string option \<Rightarrow> exn + 'v"
  clean_trxns :: "'v \<Rightarrow> exn + 'v"
  gen_body :: "'v \<Rightarrow> exn + rendered"
  header :: "'dt \<Rightarrow> string \<Rightarrow> exn + rendered"
  footer :: "'dt \<Rightarrow> rat option \<Rightarrow> exn + rendered"

text \<open>
  Everything else \<^verbatim>\<open>run\<close> calls. \<open>open_read\<close> and \<open>open_write\<close> are \<^verbatim>\<open>builtins.open\<close> on a
  path and an encoding (\<open>Some e\<close>: it raises \<open>e\<close>); \<open>stdin_name\<close> is the attribute \<^verbatim>\<open>name\<close> of
  \<^verbatim>\<open>sys.stdin\<close>, \<open>None\<close> when it has none; \<open>time_now\<close> is \<^verbatim>\<open>time.time()\<close>; \<open>writer\<close> is
  \<^verbatim>\<open>meza.io.write\<close> on the fragments it receives and returns the count it reports.
\<close>

record ('v, 'dt, 'ts) env =
  load_package_module :: "string \<Rightarrow> exn + mapping_spec"
  parse :: "string \<Rightarrow> bool \<Rightarrow> exn + 'dt"
  QIF :: "mapping_spec \<Rightarrow> 'dt okwargs \<Rightarrow> exn + ('v, 'dt) container"
  OFX :: "mapping_spec \<Rightarrow> 'dt okwargs \<Rightarrow> exn + ('v, 'dt) container"
  open_read :: "string \<Rightarrow> string \<Rightarrow> exn option"
  open_write :: "string \<Rightarrow> string \<Rightarrow> exn option"
  stdin_name :: "string option"
  read_csv :: "handle \<Rightarrow> ckwargs \<Rightarrow> exn + 'v"
  gen_data :: "'v \<Rightarrow> exn + 'v"
  getmtime :: "string \<Rightarrow> exn + 'ts"
  time_now :: 'ts
  fromtimestamp :: "'ts \<Rightarrow> 'dt"
  writer :: "handle \<Rightarrow> string list \<Rightarrow> wkwargs \<Rightarrow> exn + nat"

subsection \<open>The first try block (lines 271-297)\<close>

text \<open>
  The attribute \<^verbatim>\<open>name\<close> of the source file object, a path or standard input (the other
  two handles are never a source).
\<close>

fun source_name :: "('v, 'dt, 'ts) env \<Rightarrow> handle \<Rightarrow> string option" where
  "source_name E (SrcFile p) = Some p"
| "source_name E (DstFile p) = Some p"
| "source_name E Stdin = stdin_name E"
| "source_name E Stdout = Some ''<stdout>''"

text \<open>Lines 226-227, \<^verbatim>\<open>_time_from_file\<close>.\<close>

definition time_from_file :: "('v, 'dt, 'ts) env \<Rightarrow> string \<Rightarrow> exn + 'ts" where
  "time_from_file E path = getmtime E path"

text \<open>
  Lines 282-285: the modification time of the source; \<^verbatim>\<open>AttributeError\<close> (no \<^verbatim>\<open>name\<close>) and
  \<^verbatim>\<open>FileNotFoundError\<close> fall back to the clock, any other exception goes on.
\<close>

definition source_mtime :: "('v, 'dt, 'ts) env \<Rightarrow> handle \<Rightarrow> exn + 'ts" where
  "source_mtime E src =
     (case source_name E src of
        None \<Rightarrow> Inr (time_now E)
      | Some n \<Rightarrow>
         (case time_from_file E n of
            Inr m \<Rightarrow> Inr m
          | Inl (AttributeError x) \<Rightarrow> Inr (time_now E)
          | Inl (FileNotFoundError x) \<Rightarrow> Inr (time_now E)
          | Inl e \<Rightarrow> Inl e))"

text \<open>Lines 279-287.\<close>

definition get_server_date :: "('v, 'dt, 'ts) env \<Rightarrow> args \<Rightarrow> handle \<Rightarrow> exn + 'dt" where
  "get_server_date E a src =
     (case server_date a of
        Some s \<Rightarrow>
          if s \<noteq> [] then parse E s (dayfirst a)
          else (case source_mtime E src of Inl e \<Rightarrow> Inl e | Inr m \<Rightarrow> Inr (fromtimestamp E m))
      | None \<Rightarrow>
          (case source_mtime E src of Inl e \<Rightarrow> Inl e | Inr m \<Rightarrow> Inr (fromtimestamp E m)))"

text \<open>The local variables the first try block leaves behind.\<close>

record ('v, 'dt) locals =
  l_records :: 'v
  l_groups :: 'v
  l_trxns :: 'v
  l_cleaned_trxns :: 'v
  l_data :: 'v
  l_body :: rendered
  l_server_date :: 'dt
  l_header :: rendered
  l_footer :: rendered
  l_content :: content
  l_kwargs :: wkwargs

text \<open>
  The body of the first try block: \<open>Inl e\<close> when a call raises \<open>e\<close>, which ends the block at
  that call.
\<close>

definition try_body ::
  "('v, 'dt, 'ts) env \<Rightarrow> ('v, 'dt) container \<Rightarrow> args \<Rightarrow> handle \<Rightarrow> ckwargs
     \<Rightarrow> exn + ('v, 'dt) locals" where
  "try_body E cont a src ck =
     (case read_csv E src ck of Inl e \<Rightarrow> Inl e | Inr records \<Rightarrow>
     (case gen_groups cont records (chunksize a) of Inl e \<Rightarrow> Inl e | Inr groups \<Rightarrow>
     (case gen_trxns cont groups (collapse a) of Inl e \<Rightarrow> Inl e | Inr trxns \<Rightarrow>
     (case clean_trxns cont trxns of Inl e \<Rightarrow> Inl e | Inr cleaned_trxns \<Rightarrow>
     (case gen_data E cleaned_trxns of Inl e \<Rightarrow> Inl e | Inr data \<Rightarrow>
     (case gen_body cont data of Inl e \<Rightarrow> Inl e | Inr body \<Rightarrow>
     (case get_server_date E a src of Inl e \<Rightarrow> Inl e | Inr sd \<Rightarrow>
     (case header cont sd (language a) of Inl e \<Rightarrow> Inl e | Inr hdr \<Rightarrow>
     (case footer cont sd (ending_balance a) of Inl e \<Rightarrow> Inl e | Inr ftr \<Rightarrow>
        Inr \<lparr> l_records = records, l_groups = groups, l_trxns = trxns,
              l_cleaned_trxns = cleaned_trxns, l_data = data, l_body = body,
              l_server_date = sd, l_header = hdr, l_footer = ftr,
              l_content = chain_from_iterable (filter truthy_section [hdr, body, ftr]),
              l_kwargs = \<lparr> kw_overwrite = overwrite a, kw_chunksize = chunksize a,
                           kw_encoding = encoding a \<rparr> \<rparr>)))))))))"

subsection \<open>The process: handles, exit, run\<close>

text \<open>
  The argument of \<^verbatim>\<open>sys.exit\<close>: an integer status, a message, or an exception object. The
  interpreter prints a message or an exception to standard error and exits with status 1.
\<close>

datatype exit_arg = Code int | Msg string | Exc exn

fun exit_status :: "exit_arg \<Rightarrow> int" where
  "exit_status (Code n) = n"
| "exit_status (Msg m) = 1"
| "exit_status (Exc e) = 1"

text \<open>How \<^verbatim>\<open>run\<close> ends: through \<^verbatim>\<open>sys.exit\<close>, or with an exception nothing catches.\<close>

datatype outcome = SysExit exit_arg | Uncaught exn

text \<open>
  The effects of \<^verbatim>\<open>run\<close> that the properties speak of: the files it has opened and not yet
  closed, and whether a traceback and the usage text were printed.
\<close>

record world =
  open_handles :: "handle list"
  traceback_printed :: bool
  help_printed :: bool

definition init_world :: world where
  "init_world = \<lparr> open_handles = [], traceback_printed = False, help_printed = False \<rparr>"

definition opened :: "handle \<Rightarrow> world \<Rightarrow> world" where
  "opened h w = w\<lparr> open_handles := h # open_handles w \<rparr>"

definition close :: "handle \<Rightarrow> world \<Rightarrow> world" where
  "close h w = w\<lparr> open_handles := removeAll h (open_handles w) \<rparr>"

text \<open>\<^verbatim>\<open>source.close() if args.source else None\<close> and the same for the destination.\<close>

definition close_source :: "args \<Rightarrow> handle \<Rightarrow> world \<Rightarrow> world" where
  "close_source a src w = (if truthy (source a) then close src w else w)"

definition close_dest :: "args \<Rightarrow> handle \<Rightarrow> world \<Rightarrow> world" where
  "close_dest a dst w = (if truthy (dest a) then close dst w else w)"

text \<open>Lines 258-260 and 302-306: open the path when the option is truthy, else the standard stream.\<close>

definition open_source ::
  "('v, 'dt, 'ts) env \<Rightarrow> args \<Rightarrow> world \<Rightarrow> exn + handle \<times> world" where
  "open_source E a w =
     (case source a of
        None \<Rightarrow> Inr (Stdin, w)
      | Some p \<Rightarrow>
          if p \<noteq> [] then
            (case open_read E p (encoding a) of
               Some e \<Rightarrow> Inl e
             | None \<Rightarrow> Inr (SrcFile p, opened (SrcFile p) w))
          else Inr (Stdin, w))"

definition open_dest ::
  "('v, 'dt, 'ts) env \<Rightarrow> args \<Rightarrow> world \<Rightarrow> exn + handle \<times> world" where
  "open_dest E a w =
     (case dest a of
        None \<Rightarrow> Inr (Stdout, w)
      | Some p \<Rightarrow>
          if p \<noteq> [] then
            (case open_write E p (encoding a) of
               Some e \<Rightarrow> Inl e
             | None \<Rightarrow> Inr (DstFile p, opened (DstFile p) w))
          else Inr (Stdout, w))"

text \<open>
  \<^verbatim>\<open>write(dest, IterStringIO(content), **kwargs)\<close>: the writer pulls the stream. It handles the
  fragments the stream yields; when the stream ends with an exception and the writer has
  not failed on the fragments before it, that exception leaves the call.
\<close>

definition write_stream ::
  "('v, 'dt, 'ts) env \<Rightarrow> handle \<Rightarrow> content \<Rightarrow> wkwargs \<Rightarrow> exn + nat" where
  "write_stream E dst c kw =
     (case writer E dst (fst c) kw of
        Inl e \<Rightarrow> Inl e
      | Inr n \<Rightarrow> (case snd c of Some e \<Rightarrow> Inl e | None \<Rightarrow> Inr n))"

text \<open>
  The \<^verbatim>\<open>except\<close> and \<^verbatim>\<open>else\<close> clauses of the second try block (lines 310-330): the value bound
  to \<^verbatim>\<open>msg\<close> (\<open>None\<close>: no clause ran, \<^verbatim>\<open>msg\<close> stays unbound) and the printing done.
\<close>

definition handle_result :: "args \<Rightarrow> exn + nat \<Rightarrow> world \<Rightarrow> exit_arg option \<times> world" where
  "handle_result a r w =
     (case r of
        Inl (KeyError x) \<Rightarrow>
          (Some (Msg (''Field '' @ x @ '' is missing from file. Check `mapping` option.'')),
           w\<lparr> traceback_printed := True \<rparr>)
      | Inl (TypeError x) \<Rightarrow>
          (Some (Msg (''No data to write. '' @ x @ ''. '' @
             (if truthy (collapse a) then ''Check `start` and `end` options.''
              else ''Try again with `-c` option.''))), w)
      | Inl (ValueError x) \<Rightarrow>
          (Some (Msg (''Possible mapping problem: '' @ x @ ''.'')), w\<lparr> help_printed := True \<rparr>)
      | Inl (BalanceError x b f) \<Rightarrow>
          (Some (Msg (x @ ''.  Try again with `--ending-balance` option.'')), w)
      | Inl (BaseExc x) \<Rightarrow> (None, w)
      | Inl e \<Rightarrow> (Some (Code 1), w\<lparr> traceback_printed := True \<rparr>)
      | Inr res \<Rightarrow>
          (Some (if res \<noteq> 0 then Code 0
                 else Msg ''No data to write. Check `start` and `end` options.''), w))"

text \<open>
  The second try block with its \<^verbatim>\<open>finally\<close> clause (lines 308-334): both handles are
  closed, then \<^verbatim>\<open>sys.exit(msg)\<close> runs; with \<^verbatim>\<open>msg\<close> unbound it raises \<^verbatim>\<open>UnboundLocalError\<close>.
\<close>

definition second_try ::
  "('v, 'dt, 'ts) env \<Rightarrow> args \<Rightarrow> handle \<Rightarrow> handle \<Rightarrow> content \<Rightarrow> wkwargs \<Rightarrow> world
     \<Rightarrow> outcome \<times> world" where
  "second_try E a src dst c kw w =
     (case handle_result a (write_stream E dst c kw) w of
        (msg, w') \<Rightarrow>
          (case msg of
             None \<Rightarrow> (Uncaught (UnboundLocalError ''msg''), close_dest a dst (close_source a src w'))
           | Some m \<Rightarrow> (SysExit m, close_dest a dst (close_source a src w'))))"

text \<open>Line 247: \<^verbatim>\<open>(args.custom or load_package_module(args.mapping)).mapping\<close>.\<close>

definition load_mapping :: "('v, 'dt, 'ts) env \<Rightarrow> args \<Rightarrow> exn + mapping_spec" where
  "load_mapping E a =
     (case custom a of Some m \<Rightarrow> Inr m | None \<Rightarrow> load_package_module E (mapping_name a))"

text \<open>
  Lines 247-260: the mapping, \<^verbatim>\<open>okwargs\<close>, the object \<^verbatim>\<open>cont\<close> and the source, in this order.
  None of these calls is inside a try block.
\<close>

definition prelude ::
  "('v, 'dt, 'ts) env \<Rightarrow> args
     \<Rightarrow> exn + mapping_spec \<times> ('v, 'dt) container \<times> handle \<times> world" where
  "prelude E a =
     (case load_mapping E a of Inl e \<Rightarrow> Inl e | Inr m \<Rightarrow>
     (case build_okwargs (parse E) a of Inl e \<Rightarrow> Inl e | Inr okw \<Rightarrow>
     (case (if qif a then QIF E m okw else OFX E m okw) of Inl e \<Rightarrow> Inl e | Inr cont \<Rightarrow>
     (case open_source E a init_world of
        Inl e \<Rightarrow> Inl e
      | Inr (src, w1) \<Rightarrow> Inr (m, cont, src, w1)))))"

text \<open>
  Lines 262-334: the first try block with its handler (lines 298-300), the opening of the
  destination (outside both try blocks), and the second try block.
\<close>

definition convert ::
  "('v, 'dt, 'ts) env \<Rightarrow> args \<Rightarrow> mapping_spec \<Rightarrow> ('v, 'dt) container \<Rightarrow> handle \<Rightarrow> world
     \<Rightarrow> outcome \<times> world" where
  "convert E a m cont src w1 =
     (case try_body E cont a src
             (build_ckwargs m a (has_header cont) (custom_header cont)) of
        Inl e \<Rightarrow>
          (if is_Exception e then (SysExit (Exc e), close_source a src w1)
           else (Uncaught e, w1))
      | Inr L \<Rightarrow>
          (case open_dest E a w1 of
             Inl e \<Rightarrow> (Uncaught e, w1)
           | Inr (dst, w2) \<Rightarrow> second_try E a src dst (l_content L) (l_kwargs L) w2))"

text \<open>
  \<^verbatim>\<open>run\<close> (lines 230-334), from the parsed options on. What the three early exits print is
  left out. An exception outside the two try blocks is caught by nothing.
\<close>

definition run :: "('v, 'dt, 'ts) env \<Rightarrow> args \<Rightarrow> outcome \<times> world" where
  "run E a =
     (if debug a then (SysExit (Code 0), init_world)
      else if version a then (SysExit (Code 0), init_world)
      else if list_mappings a then (SysExit (Code 0), init_world)
      else
        (case prelude E a of
           Inl e \<Rightarrow> (Uncaught e, init_world)
         | Inr (m, cont, src, w1) \<Rightarrow> convert E a m cont src w1))"

text \<open>Sequencing of two calls that may raise: the second runs on the value of the first.\<close>

definition and_then :: "('a \<Rightarrow> exn + 'b) \<Rightarrow> ('b \<Rightarrow> exn + 'c) \<Rightarrow> 'a \<Rightarrow> exn + 'c" where
  "and_then f g x = (case f x of Inl e \<Rightarrow> Inl e | Inr y \<Rightarrow> g y)"

subsection \<open>Parts modelled from the specification\<close>

text \<open>
  Modelled from the spec: the Date/Range Filter (sections 3 and 4.4), which belongs to the
  classes \<^verbatim>\<open>OFX\<close> and \<^verbatim>\<open>QIF\<close> (\<^verbatim>\<open>clean_trxns\<close>) that are not among the sources. It gives
  the order-preserving subsequence of the transactions whose date lies within the
  inclusive bounds; an omitted bound (\<open>None\<close>) leaves its side unbounded. \<open>date_of\<close> reads
  the date of a transaction.
\<close>

definition filter_trxns ::
  "('t \<Rightarrow> 'dt::linorder) \<Rightarrow> 'dt option \<Rightarrow> 'dt option \<Rightarrow> 't list \<Rightarrow> 't list" where
  "filter_trxns date_of s e ts =
     filter (\<lambda>t. (case s of None \<Rightarrow> True | Some lo \<Rightarrow> lo \<le> date_of t) \<and>
                 (case e of None \<Rightarrow> True | Some hi \<Rightarrow> date_of t \<le> hi)) ts"

text \<open>
  Modelled from the spec: the Balance Aggregator (sections 4.5 and 8), \<^verbatim>\<open>utils.gen_data\<close> and
  the footer of the absent classes. The final balance is the opening balance plus the sum of
  the amounts. When an expected ending balance is supplied and strict mode is on, it is
  compared with the final balance within \<open>eps\<close>; on disagreement the result is a
  \<open>BalanceError\<close> with the text \<open>txt\<close> carrying both values. The check runs when the stream
  is consumed (sections 5 and 6: the sections are lazy and the final balance is known only
  after the body), so its verdict is the way a generator ends.
\<close>

definition final_balance :: "rat \<Rightarrow> rat list \<Rightarrow> rat" where
  "final_balance opening amounts = opening + sum_list amounts"

definition reconcile :: "bool \<Rightarrow> rat option \<Rightarrow> rat \<Rightarrow> rat \<Rightarrow> string \<Rightarrow> exn option" where
  "reconcile strict_mode expected eps final txt =
     (case expected of
        None \<Rightarrow> None
      | Some b \<Rightarrow>
          if strict_mode \<and> eps < \<bar>b - final\<bar> then Some (BalanceError txt b final)
          else None)"

definition reconciled_footer ::
  "bool \<Rightarrow> rat \<Rightarrow> rat \<Rightarrow> string \<Rightarrow> string list \<Rightarrow> rat option \<Rightarrow> rendered" where
  "reconciled_footer strict_mode eps final txt frags expected =
     (case reconcile strict_mode expected eps final txt of
        Some e \<Rightarrow> SGen [] (Some e)
      | None \<Rightarrow> SGen frags None)"

text \<open>
  Modelled from the spec: the account types of each output format and their validation
  when the header is generated (section 4.6), in the absent classes. One format takes
  checking, savings, money-market and credit-line, the other bank and cash; a value outside
  the set of the selected format fails with UnsupportedAccountType. \<open>render\<close> is the rest
  of the header method.
\<close>

definition format_types :: "bool \<Rightarrow> string list" where
  "format_types is_qif =
     (if is_qif then [''Bank'', ''Cash'']
      else [''CHECKING'', ''SAVINGS'', ''MONEYMRKT'', ''CREDITLINE''])"

definition validate_account_type :: "bool \<Rightarrow> string \<Rightarrow> exn option" where
  "validate_account_type is_qif t =
     (if t \<in> set (format_types is_qif) then None else Some (UnsupportedAccountType t))"

definition validating_header ::
  "bool \<Rightarrow> string \<Rightarrow> ('dt \<Rightarrow> string \<Rightarrow> exn + rendered) \<Rightarrow> 'dt \<Rightarrow> string \<Rightarrow> exn + rendered" where
  "validating_header is_qif t render d lang =
     (case validate_account_type is_qif t of Some e \<Rightarrow> Inl e | None \<Rightarrow> render d lang)"

subsection \<open>Reading the exit message\<close>

text \<open>The two hints of lines 317 and 319, and whether a message ends with a given hint.\<close>

definition hint_dates :: string where
  "hint_dates = ''Check `start` and `end` options.''"

definition hint_collapse :: string where
  "hint_collapse = ''Try again with `-c` option.''"

definition ends_with :: "string \<Rightarrow> string \<Rightarrow> bool" where
  "ends_with msg h = (length h \<le> length msg \<and> drop (length msg - length h) msg = h)"

text \<open>
  The two situations \<^verbatim>\<open>run\<close> itself reports as "No data to write": the writer raises
  \<^verbatim>\<open>TypeError\<close> (line 313), or it returns a falsy count (line 330).
\<close>

fun no_data :: "exn + nat \<Rightarrow> bool" where
  "no_data (Inl (TypeError x)) = True"
| "no_data (Inr n) = (n = 0)"
| "no_data (Inl e) = False"

subsection \<open>Example inputs\<close>

text \<open>
  A small concrete setting on which the properties below are evaluated. The values handed
  from stage to stage are lists of strings, and each stage appends its name, so that the
  body shows the order of the calls. Dates and time stamps are integers.
\<close>

definition demo_cont :: "(string list, int) container" where
  "demo_cont =
     \<lparr> has_header = PBool True, custom_header = PNone,
       gen_groups = (\<lambda>v n. Inr (v @ [''groups''])),
       gen_trxns = (\<lambda>v c. Inr (v @ [''trxns''])),
       clean_trxns = (\<lambda>v. Inr (v @ [''cleaned''])),
       gen_body = (\<lambda>v. Inr (SGen v None)),
       header = (\<lambda>d l. Inr (SText ''H'')),
       footer = (\<lambda>d b. Inr SNone) \<rparr>"

definition demo_env :: "(string list, int, int) env" where
  "demo_env =
     \<lparr> load_package_module = (\<lambda>n. Inr Map.empty),
       parse = (\<lambda>s df. if s = ''2021-01-31'' then Inr 31
                        else if s = ''2021-02-28'' then Inr 59
                        else Inl (ValueError ''Unknown string format'')),
       QIF = (\<lambda>m k. Inr demo_cont),
       OFX = (\<lambda>m k. Inr demo_cont),
       open_read = (\<lambda>p enc. if p = ''in.csv'' then None else Some (FileNotFoundError p)),
       open_write = (\<lambda>p enc. if p = ''out.ofx'' then None else Some (FileNotFoundError p)),
       stdin_name = Some ''<stdin>'',
       read_csv = (\<lambda>h k. Inr [''rows'']),
       gen_data = (\<lambda>v. Inr (v @ [''data''])),
       getmtime = (\<lambda>p. if p = ''in.csv'' then Inr 7 else Inl (FileNotFoundError p)),
       time_now = 9,
       fromtimestamp = (\<lambda>t. t),
       writer = (\<lambda>h fs kw. Inr (length (concat fs))) \<rparr>"

text \<open>The command line \<^verbatim>\<open>csv2ofx in.csv out.ofx\<close>, read on 2021-02-28.\<close>

definition demo_args :: args where
  "demo_args = (parser_defaults ''2021-02-28'')\<lparr> source := Some ''in.csv'', dest := Some ''out.ofx'' \<rparr>"

definition demo_ck :: ckwargs where
  "demo_ck = build_ckwargs Map.empty demo_args (has_header demo_cont) (custom_header demo_cont)"

definition demo_locals :: "(string list, int) locals" where
  "demo_locals =
     \<lparr> l_records = [''rows''], l_groups = [''rows'', ''groups''],
       l_trxns = [''rows'', ''groups'', ''trxns''],
       l_cleaned_trxns = [''rows'', ''groups'', ''trxns'', ''cleaned''],
       l_data = [''rows'', ''groups'', ''trxns'', ''cleaned'', ''data''],
       l_body = SGen [''rows'', ''groups'', ''trxns'', ''cleaned'', ''data''] None,
       l_server_date = 7, l_header = SText ''H'', l_footer = SNone,
       l_content = ([''H'', ''rows'', ''groups'', ''trxns'', ''cleaned'', ''data''], None),
       l_kwargs = \<lparr> kw_overwrite = False, kw_chunksize = 16384, kw_encoding = ''utf-8'' \<rparr> \<rparr>"

definition demo_mapping :: mapping_spec where
  "demo_mapping = [''first_row'' \<mapsto> PInt 2, ''delimiter'' \<mapsto> PStr '';'']"


text \<open>A container whose transaction stage raises when it is called.\<close>

definition demo_cont_failing :: "(string list, int) container" where
  "demo_cont_failing = demo_cont\<lparr> gen_trxns := (\<lambda>v c. Inl (KeyError ''date'')) \<rparr>"

definition demo_env_failing :: "(string list, int, int) env" where
  "demo_env_failing = demo_env\<lparr> OFX := (\<lambda>m k. Inr demo_cont_failing) \<rparr>"

text \<open>
  Runs whose rendered output holds no transaction: the body is a generator that yields
  nothing. In the first no section has any text, in the second the header has, and in the
  third the empty body ends with \<^verbatim>\<open>TypeError\<close>. The writer is the counting one.
\<close>

definition demo_cont_empty :: "(string list, int) container" where
  "demo_cont_empty =
     demo_cont\<lparr> gen_body := (\<lambda>v. Inr (SGen [] None)), header := (\<lambda>d l. Inr SNone) \<rparr>"

definition demo_env_empty :: "(string list, int, int) env" where
  "demo_env_empty = demo_env\<lparr> OFX := (\<lambda>m k. Inr demo_cont_empty) \<rparr>"

definition demo_cont_header_only :: "(string list, int) container" where
  "demo_cont_header_only = demo_cont\<lparr> gen_body := (\<lambda>v. Inr (SGen [] None)) \<rparr>"

definition demo_env_header_only :: "(string list, int, int) env" where
  "demo_env_header_only = demo_env\<lparr> OFX := (\<lambda>m k. Inr demo_cont_header_only) \<rparr>"

definition demo_cont_empty_raising :: "(string list, int) container" where
  "demo_cont_empty_raising =
     demo_cont\<lparr> gen_body := (\<lambda>v. Inr (SGen [] (Some (TypeError ''no transactions'')))) \<rparr>"

definition demo_env_empty_raising :: "(string list, int, int) env" where
  "demo_env_empty_raising = demo_env\<lparr> OFX := (\<lambda>m k. Inr demo_cont_empty_raising) \<rparr>"

text \<open>An interrupt while the rows are read, and a destination in a directory that does not exist.\<close>

definition demo_env_interrupted :: "(string list, int, int) env" where
  "demo_env_interrupted =
     demo_env\<lparr> read_csv := (\<lambda>h k. Inl (BaseExc ''KeyboardInterrupt'')) \<rparr>"

definition demo_args_nodir :: args where
  "demo_args_nodir = demo_args\<lparr> dest := Some ''nodir/out.ofx'' \<rparr>"

text \<open>
  The scenario of the spec: one transaction of -50.00, strict mode, expected ending balance
  100.00. The footer is the reconciling one.
\<close>

definition demo_cont_balance :: "(string list, int) container" where
  "demo_cont_balance =
     demo_cont\<lparr> footer :=
       (\<lambda>d b. Inr (reconciled_footer True (1 / 100) (final_balance 0 [- 50])
                      ''Balance mismatch'' [''F''] b)) \<rparr>"

definition demo_env_balance :: "(string list, int, int) env" where
  "demo_env_balance = demo_env\<lparr> OFX := (\<lambda>m k. Inr demo_cont_balance) \<rparr>"

definition demo_args_balance :: args where
  "demo_args_balance = demo_args\<lparr> strict := True, ending_balance := Some 100 \<rparr>"

text \<open>A container whose header validates the account type it was built with.\<close>

definition demo_env_validating :: "(string list, int, int) env" where
  "demo_env_validating =
     demo_env\<lparr> OFX := (\<lambda>m k. Inr (demo_cont\<lparr> header :=
                  validating_header False (ok_def_type k) (header demo_cont) \<rparr>)),
               QIF := (\<lambda>m k. Inr (demo_cont\<lparr> header :=
                  validating_header True (ok_def_type k) (header demo_cont) \<rparr>)) \<rparr>"

section \<open>Properties\<close>

subsection \<open>Auxiliary facts\<close>

lemmas demo_defs =
  demo_env_def demo_cont_def demo_args_def parser_defaults_def

lemmas run_defs =
  run_def prelude_def load_mapping_def build_okwargs_def parse_bound_def def_type_of_def
  open_source_def convert_def try_body_def build_ckwargs_def dict_get_def get_server_date_def
  source_mtime_def time_from_file_def init_world_def opened_def open_dest_def second_try_def write_stream_def
  handle_result_def close_source_def close_dest_def close_def

lemma try_body_InrD:
  assumes "try_body E cont a src ck = Inr L"
  shows "read_csv E src ck = Inr (l_records L)"
    and "gen_groups cont (l_records L) (chunksize a) = Inr (l_groups L)"
    and "gen_trxns cont (l_groups L) (collapse a) = Inr (l_trxns L)"
    and "clean_trxns cont (l_trxns L) = Inr (l_cleaned_trxns L)"
    and "gen_data E (l_cleaned_trxns L) = Inr (l_data L)"
    and "gen_body cont (l_data L) = Inr (l_body L)"
    and "get_server_date E a src = Inr (l_server_date L)"
    and "header cont (l_server_date L) (language a) = Inr (l_header L)"
    and "footer cont (l_server_date L) (ending_balance a) = Inr (l_footer L)"
    and "l_content L =
           chain_from_iterable (filter truthy_section [l_header L, l_body L, l_footer L])"
    and "l_kwargs L = \<lparr> kw_overwrite = overwrite a, kw_chunksize = chunksize a,
                           kw_encoding = encoding a \<rparr>"
  using assms unfolding try_body_def
  by (auto split: sum.splits simp del: chain_from_iterable.simps filter.simps)

lemma demo_try_body:
  "try_body demo_env demo_cont demo_args (SrcFile ''in.csv'') demo_ck = Inr demo_locals"
  by (simp add: run_defs demo_defs demo_ck_def demo_locals_def)

lemma section_items_falsy: "\<not> truthy_section s \<Longrightarrow> section_items s = []"
  by (cases s) simp_all

lemma chain_prefix:
  "prefix (fst (chain_from_iterable (filter truthy_section ss))) (concat (map section_items ss))"
proof (induction ss)
  case Nil
  then show ?case by simp
next
  case (Cons s ss)
  show ?case
  proof (cases "truthy_section s")
    case False
    with Cons show ?thesis by (simp add: section_items_falsy)
  next
    case True
    with Cons show ?thesis by (cases "section_failure s") simp_all
  qed
qed

lemma chain_no_failure:
  "\<forall>s\<in>set ss. truthy_section s \<longrightarrow> section_failure s = None \<Longrightarrow>
   chain_from_iterable (filter truthy_section ss) = (concat (map section_items ss), None)"
  by (induction ss) (auto simp: section_items_falsy)

lemma prefix_concat: "prefix xs ys \<Longrightarrow> prefix (concat xs) (concat ys)"
  by (auto simp: prefix_def)

lemma get_server_date_cases:
  assumes "get_server_date E a src = Inr d"
  shows "(\<forall>s. server_date a = Some s \<and> s \<noteq> [] \<longrightarrow> parse E s (dayfirst a) = Inr d) \<and>
         (\<not> truthy (server_date a) \<longrightarrow>
            (\<forall>n m. source_name E src = Some n \<and> time_from_file E n = Inr m \<longrightarrow>
                 d = fromtimestamp E m) \<and>
            (\<forall>n e. source_name E src = Some n \<and> time_from_file E n = Inl e \<longrightarrow>
                 (\<exists>x. e = FileNotFoundError x \<or> e = AttributeError x) \<and>
                 d = fromtimestamp E (time_now E)) \<and>
            (source_name E src = None \<longrightarrow> d = fromtimestamp E (time_now E)))"
  using assms
  by (auto simp: get_server_date_def source_mtime_def
           split: option.splits if_splits sum.splits exn.splits)

lemma demo_try_body_server_date:
  "try_body demo_env demo_cont (demo_args\<lparr> server_date := Some ''2021-01-31'' \<rparr>)
     (SrcFile ''in.csv'') demo_ck = Inr (demo_locals\<lparr> l_server_date := 31 \<rparr>)"
  by (simp add: run_defs demo_defs demo_ck_def demo_locals_def)

lemma demo_try_body_stdin:
  "try_body demo_env demo_cont (parser_defaults ''2021-02-28'') Stdin demo_ck =
     Inr (demo_locals\<lparr> l_server_date := 9 \<rparr>)"
  by (simp add: run_defs demo_defs demo_ck_def demo_locals_def)

lemma handle_result_handles: "open_handles (snd (handle_result a r w)) = open_handles w"
  by (simp add: handle_result_def split: sum.splits exn.splits)

lemma open_source_handles:
  "open_source E a init_world = Inr (src, w1) \<Longrightarrow>
     open_handles w1 = (if truthy (source a) then [src] else []) \<and> src \<noteq> Stdout \<and>
     (\<forall>p. src \<noteq> DstFile p)"
  by (auto simp: open_source_def init_world_def opened_def split: option.splits if_splits)

lemma prelude_handles:
  "prelude E a = Inr (m, cont, src, w1) \<Longrightarrow>
     open_handles w1 = (if truthy (source a) then [src] else []) \<and> src \<noteq> Stdout \<and>
     (\<forall>p. src \<noteq> DstFile p)"
  unfolding prelude_def
  by (auto split: sum.splits dest!: open_source_handles)

lemma open_dest_handles:
  "open_dest E a w1 = Inr (dst, w2) \<Longrightarrow>
     open_handles w2 = (if truthy (dest a) then dst # open_handles w1 else open_handles w1) \<and>
     (dst = Stdout \<or> (\<exists>p. dst = DstFile p))"
  by (auto simp: open_dest_def opened_def split: option.splits if_splits)

lemma second_try_handles:
  assumes "open_handles w2 = (if truthy (dest a) then [dst] else []) @ (if truthy (source a) then [src] else [])"
    and "src \<noteq> dst"
  shows "open_handles (snd (second_try E a src dst c kw w2)) = []"
proof -
  obtain msg w' where h: "handle_result a (write_stream E dst c kw) w2 = (msg, w')"
    by (cases "handle_result a (write_stream E dst c kw) w2")
  have "open_handles w' = open_handles w2"
    using handle_result_handles [of a "write_stream E dst c kw" w2] h by simp
  with assms h show ?thesis
    by (cases msg) (auto simp: second_try_def close_dest_def close_source_def close_def)
qed

lemma source_name_ignores_writer:
  "source_name (E\<lparr> writer := wr, open_write := ow \<rparr>) src = source_name E src"
  by (cases src) simp_all

lemma source_mtime_ignores_writer:
  "source_mtime (E\<lparr> writer := wr, open_write := ow \<rparr>) src = source_mtime E src"
  by (simp add: source_mtime_def time_from_file_def source_name_ignores_writer
        split: option.splits sum.splits exn.splits)

lemma get_server_date_ignores_writer:
  "get_server_date (E\<lparr> writer := wr, open_write := ow \<rparr>) a src = get_server_date E a src"
  by (simp add: get_server_date_def source_mtime_ignores_writer
        split: option.splits sum.splits)

lemma try_body_ignores_writer:
  "try_body (E\<lparr> writer := wr, open_write := ow \<rparr>) cont a src ck = try_body E cont a src ck"
  by (simp add: try_body_def get_server_date_ignores_writer split: sum.splits)

lemma prelude_ignores_writer:
  "prelude (E\<lparr> writer := wr, open_write := ow \<rparr>) a = prelude E a"
  by (simp add: prelude_def load_mapping_def open_source_def
        cong: sum.case_cong option.case_cong if_cong)

lemma open_dest_InlD:
  "open_dest E a w1 = Inl e \<Longrightarrow>
     \<exists>p. dest a = Some p \<and> p \<noteq> [] \<and> open_write E p (encoding a) = Some e"
  by (auto simp: open_dest_def split: option.splits if_splits)

lemma left_open:
  assumes "run E a = (Uncaught e, w)" and "open_handles w \<noteq> []"
  shows "\<not> is_Exception e \<or>
         (\<exists>p. dest a = Some p \<and> p \<noteq> [] \<and> open_write E p (encoding a) = Some e)"
proof -
  from assms obtain m cont src w1 where
    p: "prelude E a = Inr (m, cont, src, w1)" and
    c: "convert E a m cont src w1 = (Uncaught e, w)"
    by (auto simp: run_def init_world_def split: sum.splits if_splits)
  note ph = prelude_handles [OF p]
  show ?thesis
  proof (cases "try_body E cont a src
                  (build_ckwargs m a (has_header cont) (custom_header cont))")
    case (Inl e')
    with c show ?thesis
      by (auto simp: convert_def split: if_splits)
  next
    case (Inr L)
    show ?thesis
    proof (cases "open_dest E a w1")
      case (Inl e')
      with c Inr have "e' = e" by (simp add: convert_def)
      with Inl open_dest_InlD show ?thesis by blast
    next
      case r: (Inr dw)
      obtain dst w2 where dw: "dw = (dst, w2)" by (cases dw)
      with r c Inr have s: "second_try E a src dst (l_content L) (l_kwargs L) w2 = (Uncaught e, w)"
        by (simp add: convert_def)
      from r dw have d: "open_dest E a w1 = Inr (dst, w2)" by simp
      from open_dest_handles [OF d] ph
      have "open_handles (snd (second_try E a src dst (l_content L) (l_kwargs L) w2)) = []"
        by (intro second_try_handles) auto
      with s assms(2) show ?thesis by simp
    qed
  qed
qed

lemma balance_msg_differs:
  "x @ ''.  Try again with `--ending-balance` option.'' \<noteq>
     ''No data to write. '' @ y @ ''. '' @ (if c then hint_dates else hint_collapse)"
  "x @ ''.  Try again with `--ending-balance` option.'' \<noteq>
     ''No data to write. '' @ hint_dates"
proof -
  show "x @ ''.  Try again with `--ending-balance` option.'' \<noteq>
     ''No data to write. '' @ y @ ''. '' @ (if c then hint_dates else hint_collapse)"
  proof
    assume "x @ ''.  Try again with `--ending-balance` option.'' =
     ''No data to write. '' @ y @ ''. '' @ (if c then hint_dates else hint_collapse)"
    then have "rev (x @ ''.  Try again with `--ending-balance` option.'') =
      rev (''No data to write. '' @ y @ ''. '' @ (if c then hint_dates else hint_collapse))"
      by (rule arg_cong)
    then show False
      by (cases c) (simp_all add: hint_dates_def hint_collapse_def)
  qed
  show "x @ ''.  Try again with `--ending-balance` option.'' \<noteq>
     ''No data to write. '' @ hint_dates"
  proof
    assume "x @ ''.  Try again with `--ending-balance` option.'' =
     ''No data to write. '' @ hint_dates"
    then have "rev (x @ ''.  Try again with `--ending-balance` option.'') =
      rev (''No data to write. '' @ hint_dates)"
      by (rule arg_cong)
    then show False
      by (simp add: hint_dates_def)
  qed
qed

lemma no_data_message:
  "handle_result a (Inl (TypeError x)) w =
     (Some (Msg (''No data to write. '' @ x @ ''. '' @
        (if truthy (collapse a) then hint_dates else hint_collapse))), w)"
  "handle_result a (Inr 0) w = (Some (Msg (''No data to write. '' @ hint_dates)), w)"
  by (simp_all add: handle_result_def hint_dates_def hint_collapse_def)

lemma hard_failure_differs:
  assumes "\<not> no_data (Inl e)"
  shows "fst (handle_result a (Inl e) w) \<noteq>
           Some (Msg (''No data to write. '' @ y @ ''. '' @
                  (if c then hint_dates else hint_collapse)))"
    and "fst (handle_result a (Inl e) w) \<noteq> Some (Msg (''No data to write. '' @ hint_dates))"
  using assms balance_msg_differs
  by (cases e; simp add: handle_result_def)+

lemma second_try_Some:
  "handle_result a (write_stream E dst c kw) w = (Some m, w') \<Longrightarrow>
   second_try E a src dst c kw w = (SysExit m, close_dest a dst (close_source a src w'))"
  by (simp add: second_try_def)

lemma demo_run_balance:
  "run demo_env_balance demo_args_balance =
     (SysExit (Msg ''Balance mismatch.  Try again with `--ending-balance` option.''),
      init_world)"
  by (simp add: run_defs demo_defs demo_env_balance_def
        demo_cont_balance_def demo_args_balance_def reconciled_footer_def reconcile_def
        final_balance_def)

lemma parse_bound_cases:
  assumes "parse_bound prs a opt = Inr r"
  shows "(\<not> truthy opt \<longrightarrow> r = None) \<and>
         (\<forall>s. opt = Some s \<and> s \<noteq> [] \<longrightarrow> (\<exists>d. prs s (dayfirst a) = Inr d \<and> r = Some d))"
  using assms
  by (auto simp: parse_bound_def split: option.splits if_splits sum.splits)

lemma build_okwargs_bounds:
  assumes "build_okwargs prs a = Inr okw"
  shows "parse_bound prs a (start a) = Inr (ok_start okw)"
    and "parse_bound prs a (end_opt a) = Inr (ok_end okw)"
  using assms by (auto simp: build_okwargs_def split: sum.splits)

lemma demo_okwargs_defaults:
  "build_okwargs (parse demo_env) (parser_defaults ''2021-02-28'') =
     Inr \<lparr> ok_def_type = ''CHECKING'', ok_start = None, ok_end = Some 59,
           ok_strict = False, ok_institution = None \<rparr>"
  by (simp add: run_defs demo_defs)

lemma validating_header_Inr:
  "validating_header q t render d lang = Inr h \<Longrightarrow> t \<in> set (format_types q)"
  by (auto simp: validating_header_def validate_account_type_def split: option.splits if_splits)

lemma validating_header_Inl:
  "t \<notin> set (format_types q) \<Longrightarrow>
     validating_header q t render d lang = Inl (UnsupportedAccountType t)"
  by (simp add: validating_header_def validate_account_type_def)

lemma demo_run_validating:
  "run demo_env_validating (demo_args\<lparr> account_type := Some ''Bank'' \<rparr>) =
     (SysExit (Exc (UnsupportedAccountType ''Bank'')), init_world)"
  "run demo_env_validating (demo_args\<lparr> account_type := Some ''Bank'', qif := True \<rparr>) =
     (SysExit (Code 0), init_world)"
  by (simp_all add: run_defs demo_defs demo_env_validating_def validating_header_def
        validate_account_type_def format_types_def)

lemma demo_run_nodir:
  "run demo_env demo_args_nodir =
     (Uncaught (FileNotFoundError ''nodir/out.ofx''), opened (SrcFile ''in.csv'') init_world)"
  by (simp add: run_defs demo_defs demo_args_nodir_def)

lemma demo_run_interrupted:
  "run demo_env_interrupted demo_args =
     (Uncaught (BaseExc ''KeyboardInterrupt''), opened (SrcFile ''in.csv'') init_world)"
  by (simp add: run_defs demo_defs demo_env_interrupted_def)

lemma demo_try_body_empty:
  "try_body demo_env_empty demo_cont_empty demo_args (SrcFile ''in.csv'') demo_ck =
     Inr (demo_locals\<lparr> l_body := SGen [] None, l_header := SNone, l_content := ([], None) \<rparr>)"
  by (simp add: run_defs demo_defs demo_ck_def demo_locals_def demo_env_empty_def
        demo_cont_empty_def)

lemma demo_run_empty:
  "run demo_env_empty demo_args =
     (SysExit (Msg ''No data to write. Check `start` and `end` options.''), init_world)"
  by (simp add: run_defs demo_defs demo_env_empty_def demo_cont_empty_def)

lemma demo_try_body_header_only:
  "try_body demo_env_header_only demo_cont_header_only demo_args (SrcFile ''in.csv'') demo_ck =
     Inr (demo_locals\<lparr> l_body := SGen [] None, l_content := ([''H''], None) \<rparr>)"
  by (simp add: run_defs demo_defs demo_ck_def demo_locals_def demo_env_header_only_def
        demo_cont_header_only_def)

lemma demo_run_header_only:
  "run demo_env_header_only demo_args = (SysExit (Code 0), init_world)"
  by (simp add: run_defs demo_defs demo_env_header_only_def demo_cont_header_only_def)

lemma demo_run_empty_raising:
  "run demo_env_empty_raising demo_args =
     (SysExit (Msg ''No data to write. no transactions. Try again with `-c` option.''),
      init_world)"
  by (simp add: run_defs demo_defs demo_env_empty_raising_def demo_cont_empty_raising_def)

subsection \<open>The claims\<close>

text \<open>
  C1. In every conversion run the stages are applied in one fixed order: the rows are read,
  grouped with the configured chunk size, converted to transactions with the optional
  collapse key, cleaned, aggregated into data, and rendered into the body. Whenever the
  first try block completes, each local variable is the result of its stage on the one
  before, and the body is the composition of the six stages in this order: their
  sequencing in general, and the plain composition of functions when no stage raises.
\<close>

theorem pipeline_order:
  assumes "try_body E cont a src ck = Inr L"
  shows "read_csv E src ck = Inr (l_records L) \<and>
         gen_groups cont (l_records L) (chunksize a) = Inr (l_groups L) \<and>
         gen_trxns cont (l_groups L) (collapse a) = Inr (l_trxns L) \<and>
         clean_trxns cont (l_trxns L) = Inr (l_cleaned_trxns L) \<and>
         gen_data E (l_cleaned_trxns L) = Inr (l_data L) \<and>
         gen_body cont (l_data L) = Inr (l_body L) \<and>
         and_then (and_then (and_then (and_then (and_then
             (read_csv E src)
             (\<lambda>records. gen_groups cont records (chunksize a)))
             (\<lambda>groups. gen_trxns cont groups (collapse a)))
             (clean_trxns cont))
             (gen_data E))
             (gen_body cont) ck = Inr (l_body L) \<and>
         (\<forall>f1 f2 f3 f4 f5 f6.
            read_csv E src = Inr \<circ> f1 \<and>
            (\<lambda>records. gen_groups cont records (chunksize a)) = Inr \<circ> f2 \<and>
            (\<lambda>groups. gen_trxns cont groups (collapse a)) = Inr \<circ> f3 \<and>
            clean_trxns cont = Inr \<circ> f4 \<and>
            gen_data E = Inr \<circ> f5 \<and>
            gen_body cont = Inr \<circ> f6 \<longrightarrow>
              l_body L = (f6 \<circ> f5 \<circ> f4 \<circ> f3 \<circ> f2 \<circ> f1) ck)"
proof -
  note d = try_body_InrD(1-6) [OF assms]
  have k: "and_then (and_then (and_then (and_then (and_then
             (read_csv E src)
             (\<lambda>records. gen_groups cont records (chunksize a)))
             (\<lambda>groups. gen_trxns cont groups (collapse a)))
             (clean_trxns cont))
             (gen_data E))
             (gen_body cont) ck = Inr (l_body L)"
    using d by (simp add: and_then_def)
  have c: "l_body L = (f6 \<circ> f5 \<circ> f4 \<circ> f3 \<circ> f2 \<circ> f1) ck"
    if h: "read_csv E src = Inr \<circ> f1 \<and>
            (\<lambda>records. gen_groups cont records (chunksize a)) = Inr \<circ> f2 \<and>
            (\<lambda>groups. gen_trxns cont groups (collapse a)) = Inr \<circ> f3 \<and>
            clean_trxns cont = Inr \<circ> f4 \<and>
            gen_data E = Inr \<circ> f5 \<and>
            gen_body cont = Inr \<circ> f6" for f1 f2 f3 f4 f5 f6
  proof -
    from h have 1: "read_csv E src ck = Inr (f1 ck)" by simp
    from h have 2: "gen_groups cont r (chunksize a) = Inr (f2 r)" for r
      by (auto dest: fun_cong [where x = r])
    from h have 3: "gen_trxns cont g (collapse a) = Inr (f3 g)" for g
      by (auto dest: fun_cong [where x = g])
    from h have 4: "clean_trxns cont t = Inr (f4 t)" for t by simp
    from h have 5: "gen_data E t = Inr (f5 t)" for t by simp
    from h have 6: "gen_body cont t = Inr (f6 t)" for t by simp
    from d show ?thesis unfolding 1 2 3 4 5 6 by simp
  qed
  from d k c show ?thesis by blast
qed

theorem pipeline_order_witness:
  "try_body demo_env demo_cont demo_args (SrcFile ''in.csv'') demo_ck = Inr demo_locals \<and>
   and_then (and_then (and_then (and_then (and_then
       (read_csv demo_env (SrcFile ''in.csv''))
       (\<lambda>records. gen_groups demo_cont records (chunksize demo_args)))
       (\<lambda>groups. gen_trxns demo_cont groups (collapse demo_args)))
       (clean_trxns demo_cont))
       (gen_data demo_env))
       (gen_body demo_cont) demo_ck
     = Inr (SGen [''rows'', ''groups'', ''trxns'', ''cleaned'', ''data''] None) \<and>
   l_body demo_locals =
     ((\<lambda>v. SGen v None) \<circ> (\<lambda>v. v @ [''data'']) \<circ> (\<lambda>v. v @ [''cleaned'']) \<circ>
      (\<lambda>v. v @ [''trxns'']) \<circ> (\<lambda>v. v @ [''groups'']) \<circ> (\<lambda>k. [''rows''])) demo_ck"
proof -
  have f: "read_csv demo_env (SrcFile ''in.csv'') = Inr \<circ> (\<lambda>k. [''rows'']) \<and>
        (\<lambda>records. gen_groups demo_cont records (chunksize demo_args)) =
           Inr \<circ> (\<lambda>v. v @ [''groups'']) \<and>
        (\<lambda>groups. gen_trxns demo_cont groups (collapse demo_args)) =
           Inr \<circ> (\<lambda>v. v @ [''trxns'']) \<and>
        clean_trxns demo_cont = Inr \<circ> (\<lambda>v. v @ [''cleaned'']) \<and>
        gen_data demo_env = Inr \<circ> (\<lambda>v. v @ [''data'']) \<and>
        gen_body demo_cont = Inr \<circ> (\<lambda>v. SGen v None)"
    by (simp add: demo_env_def demo_cont_def fun_eq_iff)
  note t = pipeline_order [OF demo_try_body]
  from t f have c: "l_body demo_locals =
     ((\<lambda>v. SGen v None) \<circ> (\<lambda>v. v @ [''data'']) \<circ> (\<lambda>v. v @ [''cleaned'']) \<circ>
      (\<lambda>v. v @ [''trxns'']) \<circ> (\<lambda>v. v @ [''groups'']) \<circ> (\<lambda>k. [''rows''])) demo_ck"
    by blast
  from t have k: "and_then (and_then (and_then (and_then (and_then
       (read_csv demo_env (SrcFile ''in.csv''))
       (\<lambda>records. gen_groups demo_cont records (chunksize demo_args)))
       (\<lambda>groups. gen_trxns demo_cont groups (collapse demo_args)))
       (clean_trxns demo_cont))
       (gen_data demo_env))
       (gen_body demo_cont) demo_ck
     = Inr (SGen [''rows'', ''groups'', ''trxns'', ''cleaned'', ''data''] None)"
    by (simp add: demo_locals_def)
  from demo_try_body k c show ?thesis by blast
qed


text \<open>
  C2. The stream handed to the writer is the header, then the fragments of the body in
  their order, then the footer; a section that is \<^verbatim>\<open>None\<close> or empty is dropped from the
  chain and contributes no text. When a generator raises while it is consumed, the stream
  is a prefix of that concatenation.
\<close>

theorem output_concatenation:
  assumes "try_body E cont a src ck = Inr L"
  shows "l_content L =
           chain_from_iterable (filter truthy_section [l_header L, l_body L, l_footer L]) \<and>
         prefix (concat (fst (l_content L)))
           (section_text (l_header L) @ section_text (l_body L) @ section_text (l_footer L)) \<and>
         ((\<forall>s\<in>set [l_header L, l_body L, l_footer L].
              truthy_section s \<longrightarrow> section_failure s = None) \<longrightarrow>
            l_content L =
              (section_items (l_header L) @ section_items (l_body L) @ section_items (l_footer L),
               None) \<and>
            concat (fst (l_content L)) =
              section_text (l_header L) @ section_text (l_body L) @ section_text (l_footer L)) \<and>
         (\<forall>s\<in>set [l_header L, l_body L, l_footer L].
            \<not> truthy_section s \<longrightarrow>
              s \<notin> set (filter truthy_section [l_header L, l_body L, l_footer L]) \<and>
              section_text s = [])"
proof -
  let ?ss = "[l_header L, l_body L, l_footer L]"
  have c: "l_content L = chain_from_iterable (filter truthy_section ?ss)"
    by (rule try_body_InrD(10) [OF assms])
  have p: "prefix (concat (fst (l_content L))) (concat (concat (map section_items ?ss)))"
    unfolding c by (rule prefix_concat [OF chain_prefix])
  have n: "l_content L = (concat (map section_items ?ss), None)"
    if "\<forall>s\<in>set ?ss. truthy_section s \<longrightarrow> section_failure s = None"
    unfolding c using that by (rule chain_no_failure)
  have f: "\<forall>s\<in>set ?ss. \<not> truthy_section s \<longrightarrow>
             s \<notin> set (filter truthy_section ?ss) \<and> section_text s = []"
    by (simp add: section_text_def section_items_falsy del: filter.simps)
  from c p n f show ?thesis
    by (simp add: section_text_def del: chain_from_iterable.simps filter.simps)
qed

theorem output_concatenation_witness:
  "try_body demo_env demo_cont demo_args (SrcFile ''in.csv'') demo_ck = Inr demo_locals \<and>
   l_header demo_locals = SText ''H'' \<and> l_footer demo_locals = SNone \<and>
   l_content demo_locals = ([''H'', ''rows'', ''groups'', ''trxns'', ''cleaned'', ''data''], None) \<and>
   concat (fst (l_content demo_locals)) =
     section_text (l_header demo_locals) @ section_text (l_body demo_locals) @
     section_text (l_footer demo_locals) \<and>
   l_footer demo_locals \<notin>
     set (filter truthy_section
            [l_header demo_locals, l_body demo_locals, l_footer demo_locals])"
  using output_concatenation [OF demo_try_body] demo_try_body
  by (simp add: demo_locals_def section_text_def)

text \<open>
  C9. The CSV-shape hints come from the mapping first: for \<^verbatim>\<open>first_row\<close>, \<^verbatim>\<open>last_row\<close> and
  \<^verbatim>\<open>first_col\<close> the value of the mapping, when the key is present, overrides the command
  line option, and the option is used only when the mapping omits the key; \<^verbatim>\<open>delimiter\<close>
  comes from the mapping and is \<^verbatim>\<open>","\<close> when the mapping omits it.
\<close>

theorem csv_shape_hints:
  "(\<forall>v. m ''first_row'' = Some v \<longrightarrow> ck_first_row (build_ckwargs m a hh ch) = v) \<and>
   (m ''first_row'' = None \<longrightarrow> ck_first_row (build_ckwargs m a hh ch) = PInt (first_row a)) \<and>
   (\<forall>v. m ''last_row'' = Some v \<longrightarrow> ck_last_row (build_ckwargs m a hh ch) = v) \<and>
   (m ''last_row'' = None \<longrightarrow> ck_last_row (build_ckwargs m a hh ch) = last_row a) \<and>
   (\<forall>v. m ''first_col'' = Some v \<longrightarrow> ck_first_col (build_ckwargs m a hh ch) = v) \<and>
   (m ''first_col'' = None \<longrightarrow> ck_first_col (build_ckwargs m a hh ch) = PInt (first_col a)) \<and>
   (\<forall>v. m ''delimiter'' = Some v \<longrightarrow> ck_delimiter (build_ckwargs m a hh ch) = v) \<and>
   (m ''delimiter'' = None \<longrightarrow> ck_delimiter (build_ckwargs m a hh ch) = PStr '','')"
  by (simp add: build_ckwargs_def dict_get_def)


theorem csv_shape_hints_witness:
  "demo_mapping ''first_row'' = Some (PInt 2) \<and>
   demo_mapping ''last_row'' = None \<and>
   demo_mapping ''first_col'' = None \<and>
   demo_mapping ''delimiter'' = Some (PStr '';'') \<and>
   Map.empty ''delimiter'' = (None :: pyval option) \<and>
   build_ckwargs demo_mapping (demo_args\<lparr> first_row := 5, first_col := 1 \<rparr>) (PBool True) PNone =
     \<lparr> ck_has_header = PBool True, ck_custom_header = PNone, ck_delimiter = PStr '';'',
       ck_first_row = PInt 2, ck_last_row = PInf, ck_first_col = PInt 1 \<rparr> \<and>
   ck_delimiter (build_ckwargs Map.empty demo_args (PBool True) PNone) = PStr '',''"
  using csv_shape_hints [of demo_mapping "demo_args\<lparr> first_row := 5, first_col := 1 \<rparr>"
          "PBool True" PNone]
        csv_shape_hints [of Map.empty demo_args "PBool True" PNone]
  by (simp add: demo_mapping_def demo_defs build_ckwargs_def dict_get_def)


text \<open>
  C8. When the user gives no \<^verbatim>\<open>--account\<close> option, the default account type handed to the
  renderer is exactly \<^verbatim>\<open>Bank\<close> for QIF output and exactly \<^verbatim>\<open>CHECKING\<close> for OFX output, for
  every mapping and every other option.
\<close>

theorem default_account_type:
  assumes "account_type a = None" and "build_okwargs prs a = Inr okw"
  shows "ok_def_type okw = (if qif a then ''Bank'' else ''CHECKING'')"
  using assms
  by (auto simp: build_okwargs_def def_type_of_def split: sum.splits)

theorem default_account_type_witness:
  "account_type demo_args = None \<and>
   build_okwargs (parse demo_env) demo_args =
     Inr \<lparr> ok_def_type = ''CHECKING'', ok_start = None, ok_end = Some 59,
           ok_strict = False, ok_institution = None \<rparr> \<and>
   build_okwargs (parse demo_env) (demo_args\<lparr> qif := True \<rparr>) =
     Inr \<lparr> ok_def_type = ''Bank'', ok_start = None, ok_end = Some 59,
           ok_strict = False, ok_institution = None \<rparr>"
proof -
  have n: "account_type demo_args = None" "account_type (demo_args\<lparr> qif := True \<rparr>) = None"
    by (simp_all add: demo_defs)
  obtain k1 where k1: "build_okwargs (parse demo_env) demo_args = Inr k1"
    by (simp add: run_defs demo_defs)
  obtain k2 where k2: "build_okwargs (parse demo_env) (demo_args\<lparr> qif := True \<rparr>) = Inr k2"
    by (simp add: run_defs demo_defs)
  from default_account_type [OF n(1) k1] default_account_type [OF n(2) k2] n
  show ?thesis
    by (simp add: run_defs demo_defs)
qed


text \<open>
  C10. The date given to the header and to the footer is chosen by a three-way fallback: the
  parsed \<^verbatim>\<open>--server-date\<close> option when one is supplied (a non-empty value); otherwise the
  modification time of the source when \<^verbatim>\<open>_time_from_file\<close> resolves its name; otherwise
  (the name is missing, or no such file exists, as when reading standard input) the clock.
\<close>

theorem server_date_fallback:
  assumes "try_body E cont a src ck = Inr L"
  shows "header cont (l_server_date L) (language a) = Inr (l_header L) \<and>
         footer cont (l_server_date L) (ending_balance a) = Inr (l_footer L) \<and>
         (\<forall>s. server_date a = Some s \<and> s \<noteq> [] \<longrightarrow>
              parse E s (dayfirst a) = Inr (l_server_date L)) \<and>
         (\<not> truthy (server_date a) \<longrightarrow>
            (\<forall>n m. source_name E src = Some n \<and> time_from_file E n = Inr m \<longrightarrow>
                 l_server_date L = fromtimestamp E m) \<and>
            (\<forall>n e. source_name E src = Some n \<and> time_from_file E n = Inl e \<longrightarrow>
                 (\<exists>x. e = FileNotFoundError x \<or> e = AttributeError x) \<and>
                 l_server_date L = fromtimestamp E (time_now E)) \<and>
            (source_name E src = None \<longrightarrow>
                 l_server_date L = fromtimestamp E (time_now E)))"
  using try_body_InrD(8,9) [OF assms] get_server_date_cases [OF try_body_InrD(7) [OF assms]]
  by blast

theorem server_date_fallback_witness:
  "try_body demo_env demo_cont (demo_args\<lparr> server_date := Some ''2021-01-31'' \<rparr>)
     (SrcFile ''in.csv'') demo_ck = Inr (demo_locals\<lparr> l_server_date := 31 \<rparr>) \<and>
   parse demo_env ''2021-01-31'' False = Inr 31 \<and>
   try_body demo_env demo_cont demo_args (SrcFile ''in.csv'') demo_ck = Inr demo_locals \<and>
   \<not> truthy (server_date demo_args) \<and>
   source_name demo_env (SrcFile ''in.csv'') = Some ''in.csv'' \<and>
   time_from_file demo_env ''in.csv'' = Inr 7 \<and>
   l_server_date demo_locals = fromtimestamp demo_env 7 \<and>
   try_body demo_env demo_cont (parser_defaults ''2021-02-28'') Stdin demo_ck =
     Inr (demo_locals\<lparr> l_server_date := 9 \<rparr>) \<and>
   source_name demo_env Stdin = Some ''<stdin>'' \<and>
   time_from_file demo_env ''<stdin>'' = Inl (FileNotFoundError ''<stdin>'') \<and>
   l_server_date (demo_locals\<lparr> l_server_date := 9 \<rparr>) = fromtimestamp demo_env (time_now demo_env)"
  using server_date_fallback [OF demo_try_body_server_date]
        server_date_fallback [OF demo_try_body]
        server_date_fallback [OF demo_try_body_stdin]
        demo_try_body_server_date demo_try_body demo_try_body_stdin
  by (simp add: demo_defs demo_locals_def time_from_file_def)

text \<open>
  C7. Claim: on every exit path of the run the source and the destination file are closed
  before the process exits. This fails on two paths. An exception that is no \<^verbatim>\<open>Exception\<close>,
  raised in the first try block, is not caught by \<^verbatim>\<open>except Exception\<close>, and opening the
  destination (lines 302-306) lies outside both try blocks: either way the run ends with
  an uncaught exception and the source still open.
\<close>

theorem handles_closed_counterexample:
  "source demo_args_nodir = Some ''in.csv'' \<and>
   run demo_env demo_args_nodir =
     (Uncaught (FileNotFoundError ''nodir/out.ofx''), opened (SrcFile ''in.csv'') init_world) \<and>
   source demo_args = Some ''in.csv'' \<and>
   run demo_env_interrupted demo_args =
     (Uncaught (BaseExc ''KeyboardInterrupt''), opened (SrcFile ''in.csv'') init_world) \<and>
   open_handles (opened (SrcFile ''in.csv'') init_world) = [SrcFile ''in.csv'']"
proof -
  have a: "source demo_args_nodir = Some ''in.csv''" and b: "source demo_args = Some ''in.csv''"
    by (simp_all add: demo_args_nodir_def demo_defs)
  have c: "open_handles (opened (SrcFile ''in.csv'') init_world) = [SrcFile ''in.csv'']"
    by (simp add: opened_def init_world_def)
  from a demo_run_nodir b demo_run_interrupted c show ?thesis by blast
qed

text \<open>
  C7, amended. On every exit of the run through \<^verbatim>\<open>sys.exit\<close> (success, or an \<^verbatim>\<open>Exception\<close>
  raised by a stage of the pipeline, in the first try block or while the output is written)
  the source file, when a source path was given, and the destination file, when a
  destination path was given, are closed before the process exits. An exception raised by
  a stage ends the first try block at that stage; when it is an \<^verbatim>\<open>Exception\<close> the run exits
  with it at once, the source closed, without opening the destination or calling the
  writer. Once the writer is reached, whatever it returns or raises, both files are closed.
  A file can be left open only when the run ends with an uncaught exception that is no
  \<^verbatim>\<open>Exception\<close> or that was raised by opening the destination.
\<close>

theorem handles_closed:
  assumes "run E a = (out, w)"
  shows "(\<forall>x. out = SysExit x \<longrightarrow> open_handles w = []) \<and>
         (\<forall>m cont src w1 e.
            \<not> debug a \<and> \<not> version a \<and> \<not> list_mappings a \<and>
            prelude E a = Inr (m, cont, src, w1) \<and>
            try_body E cont a src (build_ckwargs m a (has_header cont) (custom_header cont))
              = Inl e \<and>
            is_Exception e \<longrightarrow>
              out = SysExit (Exc e) \<and> open_handles w = [] \<and>
              (\<forall>wr ow. run (E\<lparr> writer := wr, open_write := ow \<rparr>) a = (out, w))) \<and>
         (\<forall>m cont src w1 L dst w2.
            \<not> debug a \<and> \<not> version a \<and> \<not> list_mappings a \<and>
            prelude E a = Inr (m, cont, src, w1) \<and>
            try_body E cont a src (build_ckwargs m a (has_header cont) (custom_header cont))
              = Inr L \<and>
            open_dest E a w1 = Inr (dst, w2) \<longrightarrow>
              (out, w) = second_try E a src dst (l_content L) (l_kwargs L) w2 \<and>
              open_handles w = []) \<and>
         (\<forall>cont src ck e.
            (read_csv E src ck = Inl e \<longrightarrow> try_body E cont a src ck = Inl e) \<and>
            (\<forall>records.
               read_csv E src ck = Inr records \<and>
               gen_groups cont records (chunksize a) = Inl e \<longrightarrow>
                 try_body E cont a src ck = Inl e) \<and>
            (\<forall>records groups.
               read_csv E src ck = Inr records \<and>
               gen_groups cont records (chunksize a) = Inr groups \<and>
               gen_trxns cont groups (collapse a) = Inl e \<longrightarrow>
                 try_body E cont a src ck = Inl e) \<and>
            (\<forall>records groups trxns.
               read_csv E src ck = Inr records \<and>
               gen_groups cont records (chunksize a) = Inr groups \<and>
               gen_trxns cont groups (collapse a) = Inr trxns \<and>
               clean_trxns cont trxns = Inl e \<longrightarrow>
                 try_body E cont a src ck = Inl e) \<and>
            (\<forall>records groups trxns cleaned_trxns.
               read_csv E src ck = Inr records \<and>
               gen_groups cont records (chunksize a) = Inr groups \<and>
               gen_trxns cont groups (collapse a) = Inr trxns \<and>
               clean_trxns cont trxns = Inr cleaned_trxns \<and>
               gen_data E cleaned_trxns = Inl e \<longrightarrow>
                 try_body E cont a src ck = Inl e) \<and>
            (\<forall>records groups trxns cleaned_trxns data.
               read_csv E src ck = Inr records \<and>
               gen_groups cont records (chunksize a) = Inr groups \<and>
               gen_trxns cont groups (collapse a) = Inr trxns \<and>
               clean_trxns cont trxns = Inr cleaned_trxns \<and>
               gen_data E cleaned_trxns = Inr data \<and>
               gen_body cont data = Inl e \<longrightarrow>
                 try_body E cont a src ck = Inl e) \<and>
            (\<forall>records groups trxns cleaned_trxns data body.
               read_csv E src ck = Inr records \<and>
               gen_groups cont records (chunksize a) = Inr groups \<and>
               gen_trxns cont groups (collapse a) = Inr trxns \<and>
               clean_trxns cont trxns = Inr cleaned_trxns \<and>
               gen_data E cleaned_trxns = Inr data \<and>
               gen_body cont data = Inr body \<and>
               get_server_date E a src = Inl e \<longrightarrow>
                 try_body E cont a src ck = Inl e) \<and>
            (\<forall>records groups trxns cleaned_trxns data body sd.
               read_csv E src ck = Inr records \<and>
               gen_groups cont records (chunksize a) = Inr groups \<and>
               gen_trxns cont groups (collapse a) = Inr trxns \<and>
               clean_trxns cont trxns = Inr cleaned_trxns \<and>
               gen_data E cleaned_trxns = Inr data \<and>
               gen_body cont data = Inr body \<and>
               get_server_date E a src = Inr sd \<and>
               header cont sd (language a) = Inl e \<longrightarrow>
                 try_body E cont a src ck = Inl e) \<and>
            (\<forall>records groups trxns cleaned_trxns data body sd hdr.
               read_csv E src ck = Inr records \<and>
               gen_groups cont records (chunksize a) = Inr groups \<and>
               gen_trxns cont groups (collapse a) = Inr trxns \<and>
               clean_trxns cont trxns = Inr cleaned_trxns \<and>
               gen_data E cleaned_trxns = Inr data \<and>
               gen_body cont data = Inr body \<and>
               get_server_date E a src = Inr sd \<and>
               header cont sd (language a) = Inr hdr \<and>
               footer cont sd (ending_balance a) = Inl e \<longrightarrow>
                 try_body E cont a src ck = Inl e)) \<and>
         (\<forall>e. out = Uncaught e \<and> open_handles w \<noteq> [] \<longrightarrow>
            \<not> is_Exception e \<or>
            (\<exists>p. dest a = Some p \<and> p \<noteq> [] \<and> open_write E p (encoding a) = Some e))"
proof -
  have early: "open_handles w = []" if "debug a \<or> version a \<or> list_mappings a"
    using that assms by (auto simp: run_def init_world_def split: if_splits)
  have exit_closed: "open_handles w = []" if x: "out = SysExit x" for x
  proof (cases "debug a \<or> version a \<or> list_mappings a")
    case True
    then show ?thesis by (rule early)
  next
    case False
    with assms x obtain m cont src w1 where
      p: "prelude E a = Inr (m, cont, src, w1)" and
      c: "convert E a m cont src w1 = (out, w)"
      by (auto simp: run_def split: sum.splits)
    note ph = prelude_handles [OF p]
    show ?thesis
    proof (cases "try_body E cont a src
                    (build_ckwargs m a (has_header cont) (custom_header cont))")
      case (Inl e)
      with c x ph show ?thesis
        by (auto simp: convert_def close_source_def close_def split: if_splits)
    next
      case (Inr L)
      with c x obtain dst w2 where
        d: "open_dest E a w1 = Inr (dst, w2)" and
        s: "second_try E a src dst (l_content L) (l_kwargs L) w2 = (out, w)"
        by (auto simp: convert_def split: sum.splits)
      from open_dest_handles [OF d] ph
      have "open_handles (snd (second_try E a src dst (l_content L) (l_kwargs L) w2)) = []"
        by (intro second_try_handles) auto
      with s show ?thesis by simp
    qed
  qed
  have abort: "out = SysExit (Exc e) \<and> open_handles w = [] \<and>
               (\<forall>wr ow. run (E\<lparr> writer := wr, open_write := ow \<rparr>) a = (out, w))"
    if h: "\<not> debug a \<and> \<not> version a \<and> \<not> list_mappings a \<and>
           prelude E a = Inr (m, cont, src, w1) \<and>
           try_body E cont a src (build_ckwargs m a (has_header cont) (custom_header cont))
             = Inl e \<and>
           is_Exception e" for m cont src w1 e
  proof -
    from h assms have o: "out = SysExit (Exc e)" and w: "w = close_source a src w1"
      by (auto simp: run_def convert_def)
    from o have "open_handles w = []" by (rule exit_closed)
    moreover have "run (E\<lparr> writer := wr, open_write := ow \<rparr>) a = (out, w)" for wr ow
      using h o w
      by (simp add: run_def convert_def prelude_ignores_writer try_body_ignores_writer)
    ultimately show ?thesis using o by blast
  qed
  have through: "(out, w) = second_try E a src dst (l_content L) (l_kwargs L) w2 \<and>
                 open_handles w = []"
    if h: "\<not> debug a \<and> \<not> version a \<and> \<not> list_mappings a \<and>
           prelude E a = Inr (m, cont, src, w1) \<and>
           try_body E cont a src (build_ckwargs m a (has_header cont) (custom_header cont))
             = Inr L \<and>
           open_dest E a w1 = Inr (dst, w2)" for m cont src w1 L dst w2
  proof -
    from h assms have s: "second_try E a src dst (l_content L) (l_kwargs L) w2 = (out, w)"
      by (auto simp: run_def convert_def)
    from h have p: "prelude E a = Inr (m, cont, src, w1)"
      and d: "open_dest E a w1 = Inr (dst, w2)" by simp_all
    from open_dest_handles [OF d] prelude_handles [OF p]
    have "open_handles (snd (second_try E a src dst (l_content L) (l_kwargs L) w2)) = []"
      by (intro second_try_handles) auto
    with s show ?thesis by simp
  qed
  have stays_open: "\<not> is_Exception e \<or>
      (\<exists>p. dest a = Some p \<and> p \<noteq> [] \<and> open_write E p (encoding a) = Some e)"
    if "out = Uncaught e \<and> open_handles w \<noteq> []" for e
    using left_open [of E a e w] assms that by simp
  have stops: "try_body E cont a src ck = Inl e"
    if "read_csv E src ck = Inl e \<or>
        (\<exists>records. read_csv E src ck = Inr records \<and>
           (gen_groups cont records (chunksize a) = Inl e \<or>
            (\<exists>groups. gen_groups cont records (chunksize a) = Inr groups \<and>
               (gen_trxns cont groups (collapse a) = Inl e \<or>
                (\<exists>trxns. gen_trxns cont groups (collapse a) = Inr trxns \<and>
                   (clean_trxns cont trxns = Inl e \<or>
                    (\<exists>cleaned_trxns. clean_trxns cont trxns = Inr cleaned_trxns \<and>
                       (gen_data E cleaned_trxns = Inl e \<or>
                        (\<exists>data. gen_data E cleaned_trxns = Inr data \<and>
                           (gen_body cont data = Inl e \<or>
                            (\<exists>body. gen_body cont data = Inr body \<and>
                               (get_server_date E a src = Inl e \<or>
                                (\<exists>sd. get_server_date E a src = Inr sd \<and>
                                   (header cont sd (language a) = Inl e \<or>
                                    (\<exists>hdr. header cont sd (language a) = Inr hdr \<and>
                                       footer cont sd (ending_balance a) = Inl e)))))))))))))))"
    for cont src ck e
    using that by (auto simp: try_body_def)
  show ?thesis
    apply (intro conjI)
    subgoal using exit_closed by blast
    subgoal using abort by blast
    subgoal using through by blast
    subgoal by (intro allI conjI impI; rule stops; blast)
    subgoal using stays_open by blast
    done
qed


lemma demo_run_ok: "run demo_env demo_args = (SysExit (Code 0), init_world)"
  by (simp add: run_defs demo_defs)

lemma demo_run_failing:
  "run demo_env_failing demo_args = (SysExit (Exc (KeyError ''date'')), init_world)"
  by (simp add: run_defs demo_defs demo_env_failing_def demo_cont_failing_def)

theorem handles_closed_witness:
  "run demo_env demo_args = (SysExit (Code 0), init_world) \<and>
   prelude demo_env demo_args =
     Inr (Map.empty, demo_cont, SrcFile ''in.csv'', opened (SrcFile ''in.csv'') init_world) \<and>
   try_body demo_env demo_cont demo_args (SrcFile ''in.csv'') demo_ck = Inr demo_locals \<and>
   open_dest demo_env demo_args (opened (SrcFile ''in.csv'') init_world) =
     Inr (DstFile ''out.ofx'',
          opened (DstFile ''out.ofx'') (opened (SrcFile ''in.csv'') init_world)) \<and>
   run demo_env_failing demo_args = (SysExit (Exc (KeyError ''date'')), init_world) \<and>
   prelude demo_env_failing demo_args =
     Inr (Map.empty, demo_cont_failing, SrcFile ''in.csv'',
          opened (SrcFile ''in.csv'') init_world) \<and>
   try_body demo_env_failing demo_cont_failing demo_args (SrcFile ''in.csv'') demo_ck =
     Inl (KeyError ''date'') \<and>
   is_Exception (KeyError ''date'') \<and>
   read_csv demo_env_failing (SrcFile ''in.csv'') demo_ck = Inr [''rows''] \<and>
   gen_groups demo_cont_failing [''rows''] (chunksize demo_args) = Inr [''rows'', ''groups''] \<and>
   gen_trxns demo_cont_failing [''rows'', ''groups''] (collapse demo_args) =
     Inl (KeyError ''date'') \<and>
   open_handles init_world = [] \<and>
   run (demo_env_failing\<lparr> writer := (\<lambda>h fs kw. Inr 0), open_write := (\<lambda>p enc. None) \<rparr>)
       demo_args = (SysExit (Exc (KeyError ''date'')), init_world)"
proof -
  have p1: "prelude demo_env demo_args =
     Inr (Map.empty, demo_cont, SrcFile ''in.csv'', opened (SrcFile ''in.csv'') init_world)"
    by (simp add: run_defs demo_defs)
  have d1: "open_dest demo_env demo_args (opened (SrcFile ''in.csv'') init_world) =
     Inr (DstFile ''out.ofx'',
          opened (DstFile ''out.ofx'') (opened (SrcFile ''in.csv'') init_world))"
    by (simp add: run_defs demo_defs)
  have p2: "prelude demo_env_failing demo_args =
     Inr (Map.empty, demo_cont_failing, SrcFile ''in.csv'',
          opened (SrcFile ''in.csv'') init_world)"
    by (simp add: run_defs demo_defs demo_env_failing_def)
  have t2: "try_body demo_env_failing demo_cont_failing demo_args (SrcFile ''in.csv'')
              (build_ckwargs Map.empty demo_args (has_header demo_cont_failing)
                 (custom_header demo_cont_failing)) = Inl (KeyError ''date'')"
    by (simp add: run_defs demo_defs demo_env_failing_def demo_cont_failing_def)
  have k: "demo_ck = build_ckwargs Map.empty demo_args (has_header demo_cont_failing)
                 (custom_header demo_cont_failing)"
    by (simp add: demo_ck_def demo_cont_failing_def demo_cont_def)
  have f: "\<not> debug demo_args \<and> \<not> version demo_args \<and> \<not> list_mappings demo_args"
    by (simp add: demo_defs)
  have e: "is_Exception (KeyError ''date'')" by simp
  from handles_closed [OF demo_run_ok, THEN conjunct1]
  have c1: "open_handles init_world = []" by blast
  from handles_closed [OF demo_run_failing, THEN conjunct2, THEN conjunct1] f p2 t2 e
  have c2: "run (demo_env_failing\<lparr> writer := (\<lambda>h fs kw. Inr 0),
                                    open_write := (\<lambda>p enc. None) \<rparr>) demo_args =
              (SysExit (Exc (KeyError ''date'')), init_world)"
    by blast
  have st: "read_csv demo_env_failing (SrcFile ''in.csv'') demo_ck = Inr [''rows''] \<and>
     gen_groups demo_cont_failing [''rows''] (chunksize demo_args) = Inr [''rows'', ''groups''] \<and>
     gen_trxns demo_cont_failing [''rows'', ''groups''] (collapse demo_args) =
       Inl (KeyError ''date'')"
    by (simp add: demo_env_failing_def demo_env_def demo_cont_failing_def demo_cont_def)
  from handles_closed [OF demo_run_failing, THEN conjunct2, THEN conjunct2, THEN conjunct2,
         THEN conjunct1, rule_format, THEN conjunct2, THEN conjunct2, THEN conjunct1] st
  have c3: "try_body demo_env_failing demo_cont_failing demo_args (SrcFile ''in.csv'') demo_ck =
     Inl (KeyError ''date'')"
    by blast
  from demo_run_ok p1 demo_try_body d1 demo_run_failing p2 c3 k e st c1 c2
  show ?thesis by simp
qed



text \<open>
  C5. Claim: whenever the rendered output contains zero transactions, the run exits with a
  message that suggests widening the date range when a collapse key was supplied and
  supplying a collapse key otherwise. This fails on a run without a collapse key whose
  sections yield no fragment at all: the writer counts nothing written, and line 330 names
  the date range. It also fails when only the header has text: the writer counts the
  header, and the run exits with status 0 and no message.
\<close>

theorem empty_result_counterexample:
  "\<not> truthy (collapse demo_args) \<and>
   try_body demo_env_empty demo_cont_empty demo_args (SrcFile ''in.csv'') demo_ck =
     Inr (demo_locals\<lparr> l_body := SGen [] None, l_header := SNone, l_content := ([], None) \<rparr>) \<and>
   section_items (SGen [] None) = [] \<and>
   writer demo_env_empty (DstFile ''out.ofx'') [] (l_kwargs demo_locals) = Inr 0 \<and>
   run demo_env_empty demo_args =
     (SysExit (Msg ''No data to write. Check `start` and `end` options.''), init_world) \<and>
   \<not> ends_with ''No data to write. Check `start` and `end` options.'' hint_collapse \<and>
   ends_with ''No data to write. Check `start` and `end` options.'' hint_dates \<and>
   try_body demo_env_header_only demo_cont_header_only demo_args (SrcFile ''in.csv'') demo_ck =
     Inr (demo_locals\<lparr> l_body := SGen [] None, l_content := ([''H''], None) \<rparr>) \<and>
   run demo_env_header_only demo_args = (SysExit (Code 0), init_world)"
proof -
  have a: "\<not> truthy (collapse demo_args)"
    by (simp add: demo_defs)
  have b: "section_items (SGen [] None) = []" by simp
  have c: "writer demo_env_empty (DstFile ''out.ofx'') [] (l_kwargs demo_locals) = Inr 0"
    by (simp add: demo_env_empty_def demo_env_def)
  have d: "\<not> ends_with ''No data to write. Check `start` and `end` options.'' hint_collapse"
    by (simp add: ends_with_def hint_collapse_def)
  have e: "ends_with ''No data to write. Check `start` and `end` options.'' hint_dates"
    by (simp add: ends_with_def hint_dates_def)
  from a demo_try_body_empty b c demo_run_empty d e demo_try_body_header_only
    demo_run_header_only
  show ?thesis by blast
qed

text \<open>
  C5, amended. Whenever the rendered output contains zero transactions, what the run
  reports follows from what the writer does with the stream, which then holds at most the
  header and the footer. When consuming the stream raises \<^verbatim>\<open>TypeError\<close>, the run exits
  with "No data to write", the text of the error, and the hint at the date range when a
  collapse key was supplied, at the collapse key otherwise. When the writer returns a falsy
  count, the run exits with "No data to write" and the hint at the date range, whether or
  not a collapse key was supplied. In both cases the exit argument is a message that no
  other exception and no successful write produces, and neither a traceback nor the usage
  text is printed. When the writer returns a truthy count, the run exits with status 0.
\<close>

theorem empty_result_reported:
  assumes "try_body E cont a src ck = Inr L"
    and "section_items (l_body L) = []"
  shows "prefix (fst (l_content L)) (section_items (l_header L) @ section_items (l_footer L)) \<and>
         (\<forall>x. write_stream E dst (l_content L) (l_kwargs L) = Inl (TypeError x) \<longrightarrow>
            second_try E a src dst (l_content L) (l_kwargs L) w =
              (SysExit (Msg (''No data to write. '' @ x @ ''. '' @
                 (if truthy (collapse a) then hint_dates else hint_collapse))),
               close_dest a dst (close_source a src w)) \<and>
            (\<forall>e w'. \<not> no_data (Inl e) \<longrightarrow>
               fst (handle_result a (Inl e) w') \<noteq>
               Some (Msg (''No data to write. '' @ x @ ''. '' @
                 (if truthy (collapse a) then hint_dates else hint_collapse)))) \<and>
            (\<forall>n w'. \<not> no_data (Inr n) \<longrightarrow>
               fst (handle_result a (Inr n) w') \<noteq>
               Some (Msg (''No data to write. '' @ x @ ''. '' @
                 (if truthy (collapse a) then hint_dates else hint_collapse))))) \<and>
         (write_stream E dst (l_content L) (l_kwargs L) = Inr 0 \<longrightarrow>
            second_try E a src dst (l_content L) (l_kwargs L) w =
              (SysExit (Msg (''No data to write. '' @ hint_dates)),
               close_dest a dst (close_source a src w)) \<and>
            (\<forall>e w'. \<not> no_data (Inl e) \<longrightarrow>
               fst (handle_result a (Inl e) w') \<noteq>
               Some (Msg (''No data to write. '' @ hint_dates))) \<and>
            (\<forall>n w'. \<not> no_data (Inr n) \<longrightarrow>
               fst (handle_result a (Inr n) w') \<noteq>
               Some (Msg (''No data to write. '' @ hint_dates)))) \<and>
         (\<forall>n. write_stream E dst (l_content L) (l_kwargs L) = Inr n \<and> n \<noteq> 0 \<longrightarrow>
            second_try E a src dst (l_content L) (l_kwargs L) w =
              (SysExit (Code 0), close_dest a dst (close_source a src w))) \<and>
         (no_data (write_stream E dst (l_content L) (l_kwargs L)) \<longrightarrow>
            traceback_printed (snd (second_try E a src dst (l_content L) (l_kwargs L) w)) =
              traceback_printed w \<and>
            help_printed (snd (second_try E a src dst (l_content L) (l_kwargs L) w)) =
              help_printed w \<and>
            (\<exists>m. fst (second_try E a src dst (l_content L) (l_kwargs L) w) = SysExit (Msg m) \<and>
                 exit_status (Msg m) = 1))"
proof -
  let ?c = "l_content L" and ?kw = "l_kwargs L"
  let ?r = "write_stream E dst ?c ?kw"
  have c: "?c = chain_from_iterable (filter truthy_section [l_header L, l_body L, l_footer L])"
    by (rule try_body_InrD(10) [OF assms(1)])
  have p: "prefix (fst ?c) (section_items (l_header L) @ section_items (l_footer L))"
    using chain_prefix [of "[l_header L, l_body L, l_footer L]"] assms(2)
    unfolding c by simp
  have t: "second_try E a src dst ?c ?kw w =
              (SysExit (Msg (''No data to write. '' @ x @ ''. '' @
                 (if truthy (collapse a) then hint_dates else hint_collapse))),
               close_dest a dst (close_source a src w))"
    if "?r = Inl (TypeError x)" for x
    using second_try_Some [of a E dst ?c ?kw w _ w src] that no_data_message(1) [of a x w]
    by simp
  have z: "second_try E a src dst ?c ?kw w =
              (SysExit (Msg (''No data to write. '' @ hint_dates)),
               close_dest a dst (close_source a src w))"
    if "?r = Inr 0"
    using second_try_Some [of a E dst ?c ?kw w _ w src] that no_data_message(2) [of a w]
    by simp
  have ok: "second_try E a src dst ?c ?kw w =
              (SysExit (Code 0), close_dest a dst (close_source a src w))"
    if "?r = Inr n \<and> n \<noteq> 0" for n
    using second_try_Some [of a E dst ?c ?kw w "Code 0" w src] that
    by (simp add: handle_result_def)
  have dn: "fst (handle_result a (Inr n) w') \<noteq> Some (Msg m)" if "\<not> no_data (Inr n)" for n w' m
    using that by (simp add: handle_result_def)
  have q: "traceback_printed (snd (second_try E a src dst ?c ?kw w)) = traceback_printed w \<and>
           help_printed (snd (second_try E a src dst ?c ?kw w)) = help_printed w \<and>
           (\<exists>m. fst (second_try E a src dst ?c ?kw w) = SysExit (Msg m) \<and>
                exit_status (Msg m) = 1)"
    if n: "no_data ?r"
  proof (cases ?r)
    case (Inl e)
    with n obtain x where "e = TypeError x" by (cases e) simp_all
    with Inl t [of x] show ?thesis
      by (simp add: close_dest_def close_source_def close_def)
  next
    case (Inr k)
    with n z show ?thesis
      by (simp add: close_dest_def close_source_def close_def)
  qed
  show ?thesis
    apply (intro conjI)
    subgoal by (rule p)
    subgoal using t hard_failure_differs(1) dn by blast
    subgoal using z hard_failure_differs(2) dn by blast
    subgoal using ok by blast
    subgoal using q by blast
    done
qed

theorem empty_result_reported_witness:
  "try_body demo_env_empty_raising demo_cont_empty_raising demo_args (SrcFile ''in.csv'')
     demo_ck =
     Inr (demo_locals\<lparr> l_body := SGen [] (Some (TypeError ''no transactions'')),
            l_content := ([''H''], Some (TypeError ''no transactions'')) \<rparr>) \<and>
   section_items (SGen [] (Some (TypeError ''no transactions''))) = [] \<and>
   write_stream demo_env_empty_raising (DstFile ''out.ofx'')
     ([''H''], Some (TypeError ''no transactions'')) (l_kwargs demo_locals) =
     Inl (TypeError ''no transactions'') \<and>
   second_try demo_env_empty_raising demo_args (SrcFile ''in.csv'') (DstFile ''out.ofx'')
     ([''H''], Some (TypeError ''no transactions'')) (l_kwargs demo_locals)
     (opened (DstFile ''out.ofx'') (opened (SrcFile ''in.csv'') init_world)) =
     (SysExit (Msg ''No data to write. no transactions. Try again with `-c` option.''),
      init_world) \<and>
   run demo_env_empty_raising demo_args =
     (SysExit (Msg ''No data to write. no transactions. Try again with `-c` option.''),
      init_world) \<and>
   try_body demo_env_empty demo_cont_empty (demo_args\<lparr> collapse := Some ''id'' \<rparr>)
     (SrcFile ''in.csv'') demo_ck =
     Inr (demo_locals\<lparr> l_body := SGen [] None, l_header := SNone, l_content := ([], None) \<rparr>) \<and>
   write_stream demo_env_empty (DstFile ''out.ofx'') ([], None) (l_kwargs demo_locals) = Inr 0 \<and>
   second_try demo_env_empty (demo_args\<lparr> collapse := Some ''id'' \<rparr>) (SrcFile ''in.csv'')
     (DstFile ''out.ofx'') ([], None) (l_kwargs demo_locals)
     (opened (DstFile ''out.ofx'') (opened (SrcFile ''in.csv'') init_world)) =
     (SysExit (Msg ''No data to write. Check `start` and `end` options.''), init_world) \<and>
   \<not> no_data (Inl (KeyError ''date'')) \<and>
   fst (handle_result demo_args (Inl (KeyError ''date'')) init_world) \<noteq>
     Some (Msg ''No data to write. no transactions. Try again with `-c` option.'')"
proof -
  let ?w = "opened (DstFile ''out.ofx'') (opened (SrcFile ''in.csv'') init_world)"
  let ?L1 = "demo_locals\<lparr> l_body := SGen [] (Some (TypeError ''no transactions'')),
            l_content := ([''H''], Some (TypeError ''no transactions'')) \<rparr>"
  let ?L2 = "demo_locals\<lparr> l_body := SGen [] None, l_header := SNone, l_content := ([], None) \<rparr>"
  have b1: "try_body demo_env_empty_raising demo_cont_empty_raising demo_args
              (SrcFile ''in.csv'') demo_ck = Inr ?L1"
    by (simp add: run_defs demo_defs demo_ck_def demo_locals_def demo_env_empty_raising_def
          demo_cont_empty_raising_def)
  have z1: "section_items (l_body ?L1) = []" by simp
  have w1: "write_stream demo_env_empty_raising (DstFile ''out.ofx'') (l_content ?L1)
              (l_kwargs ?L1) = Inl (TypeError ''no transactions'')"
    by (simp add: write_stream_def demo_env_empty_raising_def demo_env_def)
  have b2: "try_body demo_env_empty demo_cont_empty (demo_args\<lparr> collapse := Some ''id'' \<rparr>)
              (SrcFile ''in.csv'') demo_ck = Inr ?L2"
    by (simp add: run_defs demo_defs demo_ck_def demo_locals_def demo_env_empty_def
          demo_cont_empty_def)
  have z2: "section_items (l_body ?L2) = []" by simp
  have w2: "write_stream demo_env_empty (DstFile ''out.ofx'') (l_content ?L2) (l_kwargs ?L2) =
              Inr 0"
    by (simp add: write_stream_def demo_env_empty_def demo_env_def)
  have k: "\<not> no_data (Inl (KeyError ''date''))" by simp
  note t1 = empty_result_reported [OF b1 z1, where dst = "DstFile ''out.ofx''" and w = ?w,
      THEN conjunct2, THEN conjunct1, rule_format, OF w1]
  note t2 = empty_result_reported [OF b2 z2, where dst = "DstFile ''out.ofx''" and w = ?w,
      THEN conjunct2, THEN conjunct2, THEN conjunct1, rule_format, OF w2]
  from t1 have a1: "second_try demo_env_empty_raising demo_args (SrcFile ''in.csv'')
     (DstFile ''out.ofx'') ([''H''], Some (TypeError ''no transactions'')) (l_kwargs demo_locals)
     ?w =
     (SysExit (Msg ''No data to write. no transactions. Try again with `-c` option.''),
      init_world)"
    by (simp add: demo_defs hint_collapse_def close_dest_def close_source_def close_def
          opened_def init_world_def)
  from t1 k have a3: "fst (handle_result demo_args (Inl (KeyError ''date'')) init_world) \<noteq>
     Some (Msg ''No data to write. no transactions. Try again with `-c` option.'')"
    by (simp add: handle_result_def)
  from t2 have a2: "second_try demo_env_empty (demo_args\<lparr> collapse := Some ''id'' \<rparr>)
     (SrcFile ''in.csv'') (DstFile ''out.ofx'') ([], None) (l_kwargs demo_locals) ?w =
     (SysExit (Msg ''No data to write. Check `start` and `end` options.''), init_world)"
    by (simp add: demo_defs hint_dates_def close_dest_def close_source_def close_def
          opened_def init_world_def)
  from w1 have w1': "write_stream demo_env_empty_raising (DstFile ''out.ofx'')
     ([''H''], Some (TypeError ''no transactions'')) (l_kwargs demo_locals) =
     Inl (TypeError ''no transactions'')" by simp
  from w2 have w2': "write_stream demo_env_empty (DstFile ''out.ofx'') ([], None)
     (l_kwargs demo_locals) = Inr 0" by simp
  have z1': "section_items (SGen [] (Some (TypeError ''no transactions''))) = []" by simp
  from b1 z1' w1' a1 demo_run_empty_raising b2 w2' a2 k a3 show ?thesis by blast
qed

text \<open>
  C4. When an expected ending balance is supplied, strict mode is on and the computed final
  balance differs from it by more than the tolerance, the stream ends with a \<open>BalanceError\<close>
  that carries both values; when it surfaces from the writer, the run turns it into the
  message of the error followed by the advice to use \<^verbatim>\<open>--ending-balance\<close> and exits with a
  status other than zero, both files closed.
\<close>

theorem balance_mismatch_reported:
  assumes "strict a" and "ending_balance a = Some b" and "eps < \<bar>b - final\<bar>"
    and "snd c = reconcile (strict a) (ending_balance a) eps final txt"
    and "writer E dst (fst c) kw = Inr n"
  shows "snd c = Some (BalanceError txt b final) \<and>
         write_stream E dst c kw = Inl (BalanceError txt b final) \<and>
         second_try E a src dst c kw w =
           (SysExit (Msg (txt @ ''.  Try again with `--ending-balance` option.'')),
            close_dest a dst (close_source a src w)) \<and>
         exit_status (Msg (txt @ ''.  Try again with `--ending-balance` option.'')) \<noteq> 0"
proof -
  from assms(1-4) have f: "snd c = Some (BalanceError txt b final)"
    by (simp add: reconcile_def)
  with assms(5) have w: "write_stream E dst c kw = Inl (BalanceError txt b final)"
    by (simp add: write_stream_def)
  then have "handle_result a (write_stream E dst c kw) w =
      (Some (Msg (txt @ ''.  Try again with `--ending-balance` option.'')), w)"
    by (simp add: handle_result_def)
  from second_try_Some [OF this] f w show ?thesis by simp
qed

theorem balance_mismatch_reported_witness:
  "strict demo_args_balance \<and> ending_balance demo_args_balance = Some 100 \<and>
   (1 / 100 :: rat) < \<bar>100 - final_balance 0 [- 50]\<bar> \<and>
   final_balance 0 [- 50] = - 50 \<and>
   reconcile (strict demo_args_balance) (ending_balance demo_args_balance) (1 / 100)
     (final_balance 0 [- 50]) ''Balance mismatch'' =
     Some (BalanceError ''Balance mismatch'' 100 (- 50)) \<and>
   second_try demo_env_balance demo_args_balance (SrcFile ''in.csv'') (DstFile ''out.ofx'')
     ([''H'', ''rows'', ''groups'', ''trxns'', ''cleaned'', ''data''],
      Some (BalanceError ''Balance mismatch'' 100 (- 50)))
     \<lparr> kw_overwrite = False, kw_chunksize = 16384, kw_encoding = ''utf-8'' \<rparr>
     (opened (DstFile ''out.ofx'') (opened (SrcFile ''in.csv'') init_world)) =
     (SysExit (Msg ''Balance mismatch.  Try again with `--ending-balance` option.''),
      init_world) \<and>
   run demo_env_balance demo_args_balance =
     (SysExit (Msg ''Balance mismatch.  Try again with `--ending-balance` option.''),
      init_world)"
proof -
  let ?c = "([''H'', ''rows'', ''groups'', ''trxns'', ''cleaned'', ''data''],
             Some (BalanceError ''Balance mismatch'' 100 (- 50)))"
  let ?kw = "\<lparr> kw_overwrite = False, kw_chunksize = 16384, kw_encoding = ''utf-8'' \<rparr>"
  have s: "strict demo_args_balance" and b: "ending_balance demo_args_balance = Some 100"
    by (simp_all add: demo_args_balance_def)
  have fb: "final_balance 0 [- 50] = - 50" by (simp add: final_balance_def)
  have e: "(1 / 100 :: rat) < \<bar>100 - final_balance 0 [- 50]\<bar>"
    by (simp add: final_balance_def)
  have r: "snd ?c = reconcile (strict demo_args_balance) (ending_balance demo_args_balance)
             (1 / 100) (final_balance 0 [- 50]) ''Balance mismatch''"
    by (simp add: reconcile_def demo_args_balance_def final_balance_def)
  have wr: "writer demo_env_balance (DstFile ''out.ofx'') (fst ?c) ?kw = Inr 27"
    by (simp add: demo_env_balance_def demo_env_def)
  note t = balance_mismatch_reported [OF s b e r wr, of "SrcFile ''in.csv''"
      "opened (DstFile ''out.ofx'') (opened (SrcFile ''in.csv'') init_world)"]
  from t have a1: "second_try demo_env_balance demo_args_balance (SrcFile ''in.csv'')
     (DstFile ''out.ofx'') ?c ?kw
     (opened (DstFile ''out.ofx'') (opened (SrcFile ''in.csv'') init_world)) =
     (SysExit (Msg ''Balance mismatch.  Try again with `--ending-balance` option.''),
      init_world)"
    by (simp add: fb demo_args_balance_def demo_defs close_dest_def close_source_def close_def
          opened_def init_world_def)
  from r have r': "reconcile (strict demo_args_balance) (ending_balance demo_args_balance)
     (1 / 100) (final_balance 0 [- 50]) ''Balance mismatch'' =
     Some (BalanceError ''Balance mismatch'' 100 (- 50))" by simp
  from s b e fb r' a1 demo_run_balance show ?thesis by blast
qed

text \<open>
  C3. Claim: whenever the user omits \<^verbatim>\<open>--start\<close> or \<^verbatim>\<open>--end\<close>, that side of the date window is
  unbounded. This fails for \<^verbatim>\<open>--end\<close>: without the option the namespace holds its default,
  the text of the current time, which is parsed like any other value, so the end bound is
  a date and a transaction after it is dropped.
\<close>

theorem date_window_counterexample:
  "start (parser_defaults ''2021-02-28'') = None \<and>
   end_opt (parser_defaults ''2021-02-28'') = Some ''2021-02-28'' \<and>
   build_okwargs (parse demo_env) (parser_defaults ''2021-02-28'') =
     Inr \<lparr> ok_def_type = ''CHECKING'', ok_start = None, ok_end = Some 59,
           ok_strict = False, ok_institution = None \<rparr> \<and>
   filter_trxns id None (Some 59) [58, 59, 60 :: int] = [58, 59]"
proof -
  have a: "start (parser_defaults ''2021-02-28'') = None"
    and b: "end_opt (parser_defaults ''2021-02-28'') = Some ''2021-02-28''"
    by (simp_all add: parser_defaults_def)
  have c: "filter_trxns id None (Some 59) [58, 59, 60 :: int] = [58, 59]"
    by (simp add: filter_trxns_def)
  from a b demo_okwargs_defaults c show ?thesis by blast
qed

text \<open>
  C3, amended. The bounds are inclusive. A bound is \<^verbatim>\<open>None\<close>, and its side of the window
  unbounded, exactly when its option is absent or empty; otherwise it is what the date
  parser returns for the option under the \<^verbatim>\<open>--dayfirst\<close> flag. Omitting \<^verbatim>\<open>--start\<close> leaves the
  start side unbounded. Omitting \<^verbatim>\<open>--end\<close> leaves the option at its default, the text
  \<^verbatim>\<open>str(dt.now())\<close> taken when the program was loaded: the end bound is then what the date
  parser returns for that text under the \<^verbatim>\<open>--dayfirst\<close> flag, that side is bounded, and every
  transaction dated after the bound is excluded.
\<close>

theorem date_window:
  assumes "build_okwargs prs a = Inr okw"
  shows "(\<not> truthy (start a) \<longrightarrow> ok_start okw = None) \<and>
         (\<forall>s. start a = Some s \<and> s \<noteq> [] \<longrightarrow>
              (\<exists>lo. prs s (dayfirst a) = Inr lo \<and> ok_start okw = Some lo)) \<and>
         (\<not> truthy (end_opt a) \<longrightarrow> ok_end okw = None) \<and>
         (\<forall>s. end_opt a = Some s \<and> s \<noteq> [] \<longrightarrow>
              (\<exists>hi. prs s (dayfirst a) = Inr hi \<and> ok_end okw = Some hi)) \<and>
         (\<forall>now_str. start a = start (parser_defaults now_str) \<longrightarrow> ok_start okw = None) \<and>
         (\<forall>now_str. end_opt a = end_opt (parser_defaults now_str) \<and> now_str \<noteq> [] \<longrightarrow>
              (\<exists>hi. prs now_str (dayfirst a) = Inr hi \<and> ok_end okw = Some hi \<and>
                    (\<forall>t. hi < date_of t \<longrightarrow>
                         t \<notin> set (filter_trxns date_of (ok_start okw) (ok_end okw) ts)))) \<and>
         (\<forall>t. t \<in> set (filter_trxns date_of (ok_start okw) (ok_end okw) ts) \<longleftrightarrow>
              t \<in> set ts \<and>
              (\<forall>lo. ok_start okw = Some lo \<longrightarrow> lo \<le> date_of t) \<and>
              (\<forall>hi. ok_end okw = Some hi \<longrightarrow> date_of t \<le> hi)) \<and>
         (ok_start okw = None \<and> ok_end okw = None \<longrightarrow>
            filter_trxns date_of (ok_start okw) (ok_end okw) ts = ts)"
proof -
  note s = parse_bound_cases [OF build_okwargs_bounds(1) [OF assms]]
  note e = parse_bound_cases [OF build_okwargs_bounds(2) [OF assms]]
  have m: "t \<in> set (filter_trxns date_of (ok_start okw) (ok_end okw) ts) \<longleftrightarrow>
              t \<in> set ts \<and>
              (\<forall>lo. ok_start okw = Some lo \<longrightarrow> lo \<le> date_of t) \<and>
              (\<forall>hi. ok_end okw = Some hi \<longrightarrow> date_of t \<le> hi)" for t
    by (auto simp: filter_trxns_def split: option.splits)
  have u: "ok_start okw = None \<and> ok_end okw = None \<longrightarrow>
            filter_trxns date_of (ok_start okw) (ok_end okw) ts = ts"
    by (simp add: filter_trxns_def)
  have ds: "ok_start okw = None" if "start a = start (parser_defaults now_str)" for now_str
    using s that by (simp add: parser_defaults_def)
  have de: "\<exists>hi. prs now_str (dayfirst a) = Inr hi \<and> ok_end okw = Some hi \<and>
                 (\<forall>t. hi < date_of t \<longrightarrow>
                      t \<notin> set (filter_trxns date_of (ok_start okw) (ok_end okw) ts))"
    if h: "end_opt a = end_opt (parser_defaults now_str) \<and> now_str \<noteq> []" for now_str
  proof -
    from h have "end_opt a = Some now_str \<and> now_str \<noteq> []"
      by (simp add: parser_defaults_def)
    with e obtain hi where hi: "prs now_str (dayfirst a) = Inr hi" "ok_end okw = Some hi"
      by blast
    have "t \<notin> set (filter_trxns date_of (ok_start okw) (ok_end okw) ts)"
      if "hi < date_of t" for t
      using that hi(2) m [of t] by auto
    with hi show ?thesis by blast
  qed
  show ?thesis
    apply (intro conjI)
    subgoal using s by blast
    subgoal using s by blast
    subgoal using e by blast
    subgoal using e by blast
    subgoal using ds by blast
    subgoal using de by blast
    subgoal using m by blast
    subgoal by (rule u)
    done
qed

theorem date_window_witness:
  "build_okwargs (parse demo_env) (parser_defaults ''2021-02-28'') =
     Inr \<lparr> ok_def_type = ''CHECKING'', ok_start = None, ok_end = Some 59,
           ok_strict = False, ok_institution = None \<rparr> \<and>
   \<not> truthy (start (parser_defaults ''2021-02-28'')) \<and>
   end_opt (parser_defaults ''2021-02-28'') = Some ''2021-02-28'' \<and>
   parse demo_env ''2021-02-28'' (dayfirst (parser_defaults ''2021-02-28'')) = Inr 59 \<and>
   (1 :: int) \<in> set (filter_trxns id None (Some 59) [1, 59, 60]) \<and>
   (59 :: int) \<in> set (filter_trxns id None (Some 59) [1, 59, 60]) \<and>
   (60 :: int) \<notin> set (filter_trxns id None (Some 59) [1, 59, 60]) \<and>
   build_okwargs (parse demo_env)
       ((parser_defaults ''2021-02-28'')\<lparr> start := Some ''2021-01-31'', end_opt := Some [] \<rparr>) =
     Inr \<lparr> ok_def_type = ''CHECKING'', ok_start = Some 31, ok_end = None,
           ok_strict = False, ok_institution = None \<rparr> \<and>
   (31 :: int) \<in> set (filter_trxns id (Some 31) None [30, 31, 60]) \<and>
   (60 :: int) \<in> set (filter_trxns id (Some 31) None [30, 31, 60]) \<and>
   (30 :: int) \<notin> set (filter_trxns id (Some 31) None [30, 31, 60])"
proof -
  let ?k1 = "\<lparr> ok_def_type = ''CHECKING'', ok_start = None, ok_end = Some (59::int),
           ok_strict = False, ok_institution = None \<rparr>"
  let ?k2 = "\<lparr> ok_def_type = ''CHECKING'', ok_start = Some (31::int), ok_end = None,
           ok_strict = False, ok_institution = None \<rparr>"
  have o2: "build_okwargs (parse demo_env)
       ((parser_defaults ''2021-02-28'')\<lparr> start := Some ''2021-01-31'', end_opt := Some [] \<rparr>) =
     Inr ?k2"
    by (simp add: run_defs demo_defs)
  have a: "\<not> truthy (start (parser_defaults ''2021-02-28''))"
    and b: "end_opt (parser_defaults ''2021-02-28'') = Some ''2021-02-28''"
    and c: "parse demo_env ''2021-02-28'' (dayfirst (parser_defaults ''2021-02-28'')) = Inr 59"
    by (simp_all add: parser_defaults_def demo_env_def)
  note t1 = date_window [OF demo_okwargs_defaults, where date_of = id and ts = "[1, 59, 60]"]
  note t2 = date_window [OF o2, where date_of = id and ts = "[30, 31, 60]"]
  note d1 = t1 [THEN conjunct2, THEN conjunct2, THEN conjunct2, THEN conjunct2, THEN conjunct2,
      THEN conjunct1, rule_format, of "''2021-02-28''"]
  have "(60 :: int) \<notin> set (filter_trxns id None (Some 59) [1, 59, 60])"
    using d1 c by (simp add: parser_defaults_def)
  moreover from t1 have "(1 :: int) \<in> set (filter_trxns id None (Some 59) [1, 59, 60]) \<and>
   (59 :: int) \<in> set (filter_trxns id None (Some 59) [1, 59, 60])"
    by simp
  ultimately have m1: "(1 :: int) \<in> set (filter_trxns id None (Some 59) [1, 59, 60]) \<and>
   (59 :: int) \<in> set (filter_trxns id None (Some 59) [1, 59, 60]) \<and>
   (60 :: int) \<notin> set (filter_trxns id None (Some 59) [1, 59, 60])"
    by blast
  from t2 have m2: "(31 :: int) \<in> set (filter_trxns id (Some 31) None [30, 31, 60]) \<and>
   (60 :: int) \<in> set (filter_trxns id (Some 31) None [30, 31, 60]) \<and>
   (30 :: int) \<notin> set (filter_trxns id (Some 31) None [30, 31, 60])"
    by simp
  from demo_okwargs_defaults a b c m1 o2 m2 show ?thesis by blast
qed

text \<open>
  C6. The account type in effect is one of the six values the parser admits, which are the
  four of the OFX grammar and the two of the QIF grammar; the default is always in the set
  of the selected format. The header validates the value against the set of the selected
  format: a run whose first try block completes has a valid account type, and with a value
  outside the set the header call fails with UnsupportedAccountType.
\<close>

theorem account_type_validated:
  assumes "header cont = validating_header (qif a) (def_type_of a) render"
  shows "(account_choice_ok a \<longrightarrow> def_type_of a \<in> set TYPES) \<and>
         set TYPES = set (format_types False) \<union> set (format_types True) \<and>
         (\<not> truthy (account_type a) \<longrightarrow> def_type_of a \<in> set (format_types (qif a))) \<and>
         (\<forall>L. try_body E cont a src ck = Inr L \<longrightarrow>
              def_type_of a \<in> set (format_types (qif a))) \<and>
         (def_type_of a \<notin> set (format_types (qif a)) \<longrightarrow>
            (\<forall>records groups trxns cleaned_trxns data body sd.
               read_csv E src ck = Inr records \<and>
               gen_groups cont records (chunksize a) = Inr groups \<and>
               gen_trxns cont groups (collapse a) = Inr trxns \<and>
               clean_trxns cont trxns = Inr cleaned_trxns \<and>
               gen_data E cleaned_trxns = Inr data \<and>
               gen_body cont data = Inr body \<and>
               get_server_date E a src = Inr sd \<longrightarrow>
                 try_body E cont a src ck = Inl (UnsupportedAccountType (def_type_of a))))"
proof -
  have c1: "account_choice_ok a \<longrightarrow> def_type_of a \<in> set TYPES"
    by (auto simp: account_choice_ok_def def_type_of_def TYPES_def split: option.splits)
  have c2: "set TYPES = set (format_types False) \<union> set (format_types True)"
    by (auto simp: TYPES_def format_types_def)
  have c3: "\<not> truthy (account_type a) \<longrightarrow> def_type_of a \<in> set (format_types (qif a))"
    by (auto simp: def_type_of_def format_types_def split: option.splits)
  have c4: "def_type_of a \<in> set (format_types (qif a))"
    if "try_body E cont a src ck = Inr L" for L
    using try_body_InrD(8) [OF that] assms validating_header_Inr by metis
  have c5: "try_body E cont a src ck = Inl (UnsupportedAccountType (def_type_of a))"
    if "def_type_of a \<notin> set (format_types (qif a))"
      and "read_csv E src ck = Inr records \<and>
           gen_groups cont records (chunksize a) = Inr groups \<and>
           gen_trxns cont groups (collapse a) = Inr trxns \<and>
           clean_trxns cont trxns = Inr cleaned_trxns \<and>
           gen_data E cleaned_trxns = Inr data \<and>
           gen_body cont data = Inr body \<and>
           get_server_date E a src = Inr sd"
    for records groups trxns cleaned_trxns data body sd
    using that(2) assms
    by (simp add: try_body_def validating_header_Inl [OF that(1)])
  from c1 c2 c3 c4 c5 show ?thesis by blast
qed

theorem account_type_validated_witness:
  "account_choice_ok (demo_args\<lparr> account_type := Some ''Bank'' \<rparr>) \<and>
   def_type_of (demo_args\<lparr> account_type := Some ''Bank'' \<rparr>) = ''Bank'' \<and>
   ''Bank'' \<in> set TYPES \<and>
   ''Bank'' \<notin> set (format_types (qif (demo_args\<lparr> account_type := Some ''Bank'' \<rparr>))) \<and>
   try_body demo_env
     (demo_cont\<lparr> header := validating_header False ''Bank'' (header demo_cont) \<rparr>)
     (demo_args\<lparr> account_type := Some ''Bank'' \<rparr>) (SrcFile ''in.csv'') demo_ck =
     Inl (UnsupportedAccountType ''Bank'') \<and>
   run demo_env_validating (demo_args\<lparr> account_type := Some ''Bank'' \<rparr>) =
     (SysExit (Exc (UnsupportedAccountType ''Bank'')), init_world) \<and>
   \<not> truthy (account_type demo_args) \<and>
   def_type_of demo_args \<in> set (format_types (qif demo_args)) \<and>
   run demo_env_validating (demo_args\<lparr> account_type := Some ''Bank'', qif := True \<rparr>) =
     (SysExit (Code 0), init_world)"
proof -
  let ?a = "demo_args\<lparr> account_type := Some ''Bank'' \<rparr>"
  let ?cont = "demo_cont\<lparr> header := validating_header False ''Bank'' (header demo_cont) \<rparr>"
  have d: "def_type_of ?a = ''Bank''" and q: "\<not> qif ?a"
    by (simp_all add: def_type_of_def demo_defs)
  have h: "header ?cont = validating_header (qif ?a) (def_type_of ?a) (header demo_cont)"
    using d q by simp
  have ok: "account_choice_ok ?a"
    by (simp add: account_choice_ok_def TYPES_def demo_defs)
  have nin: "''Bank'' \<notin> set (format_types (qif ?a))"
    using q by (simp add: format_types_def)
  have st: "read_csv demo_env (SrcFile ''in.csv'') demo_ck = Inr [''rows''] \<and>
            gen_groups ?cont [''rows''] (chunksize ?a) = Inr [''rows'', ''groups''] \<and>
            gen_trxns ?cont [''rows'', ''groups''] (collapse ?a) =
              Inr [''rows'', ''groups'', ''trxns''] \<and>
            clean_trxns ?cont [''rows'', ''groups'', ''trxns''] =
              Inr [''rows'', ''groups'', ''trxns'', ''cleaned''] \<and>
            gen_data demo_env [''rows'', ''groups'', ''trxns'', ''cleaned''] =
              Inr [''rows'', ''groups'', ''trxns'', ''cleaned'', ''data''] \<and>
            gen_body ?cont [''rows'', ''groups'', ''trxns'', ''cleaned'', ''data''] =
              Inr (SGen [''rows'', ''groups'', ''trxns'', ''cleaned'', ''data''] None) \<and>
            get_server_date demo_env ?a (SrcFile ''in.csv'') = Inr 7"
    by (simp add: demo_env_def demo_cont_def get_server_date_def source_mtime_def
          time_from_file_def demo_args_def parser_defaults_def)
  note t = account_type_validated [OF h, of demo_env "SrcFile ''in.csv''" demo_ck]
  from t ok have "def_type_of ?a \<in> set TYPES" by blast
  with d have i1: "''Bank'' \<in> set TYPES" by simp
  from nin d have "def_type_of ?a \<notin> set (format_types (qif ?a))" by simp
  with t st have "try_body demo_env ?cont ?a (SrcFile ''in.csv'') demo_ck =
     Inl (UnsupportedAccountType (def_type_of ?a))"
    by blast
  with d have i2: "try_body demo_env ?cont ?a (SrcFile ''in.csv'') demo_ck =
     Inl (UnsupportedAccountType ''Bank'')"
    by simp
  have n: "\<not> truthy (account_type demo_args)" by (simp add: demo_defs)
  have h0: "header (demo_cont\<lparr> header := validating_header False ''CHECKING'' (header demo_cont) \<rparr>)
      = validating_header (qif demo_args) (def_type_of demo_args) (header demo_cont)"
    by (simp add: def_type_of_def demo_defs)
  from account_type_validated [OF h0] n
  have i3: "def_type_of demo_args \<in> set (format_types (qif demo_args))" by blast
  from ok d i1 nin i2 demo_run_validating n i3 show ?thesis by blast
qed


end
